theory Spec2Isabelle
  imports Complex_Main "HOL-Library.AList" "HOL-Library.List_Lexorder" "HOL-Library.Char_ord" "HOL-Library.Product_Lexorder"
begin

section \<open>Anomaly scoring of iotfunctions/anomaly.py\<close>

text \<open>
  The module holds one scaffold class, \<open>ASAnomalyHandler\<close>, and three transformers,
  \<open>NoDataAnomalyScore\<close>, \<open>SpectralAnomalyScore\<close> and \<open>KMeansAnomalyScore\<close>, whose
  \<open>execute\<close> methods score one column of a table indexed by (entity, timestamp).
  Exceptions of the Python code are values of the type \<open>error\<close>; a computation that may
  raise returns \<open>error + 'a\<close>, with \<open>Inl\<close> the exception.
\<close>

datatype error =
    AttributeError string
  | NameError string
  | KeyError string
  | ValueError string
  | TypeError string
  | MergeError string

definition bind :: "error + 'a \<Rightarrow> ('a \<Rightarrow> error + 'b) \<Rightarrow> error + 'b" where
  "bind m f = (case m of Inl e \<Rightarrow> Inl e | Inr x \<Rightarrow> f x)"

subsection \<open>Names and attributes of the module\<close>

text \<open>
  Python resolves a name that a function body does not assign in the module's globals and
  then in the builtins, and raises \<open>NameError\<close> when neither has it. An attribute of an
  instance is looked up in the instance's own dictionary and then in its class (and the
  bases of the class), and \<open>AttributeError\<close> is raised when none has it.
\<close>

definition module_globals :: "string list" where
  "module_globals =
    [''__name__'', ''__doc__'', ''__package__'', ''__loader__'', ''__spec__'', ''__file__'',
     ''__cached__'', ''__builtins__'',
     ''dt'', ''time'', ''OrderedDict'', ''np'', ''sp'', ''signal'', ''energy_distance'',
     ''ski'', ''skiutil'', ''CBLOF'', ''re'', ''pd'', ''logging'', ''warnings'', ''json'',
     ''Column'', ''Integer'', ''String'', ''Float'', ''DateTime'', ''Boolean'', ''func'',
     ''BaseTransformer'', ''BaseEvent'', ''BaseSCDLookup'', ''BaseMetadataProvider'',
     ''BasePreload'', ''BaseDatabaseLookup'', ''BaseDataSource'', ''BaseDBActivityMerge'',
     ''BaseSimpleAggregator'',
     ''UISingle'', ''UIMultiItem'', ''UIFunctionOutSingle'', ''UISingleItem'',
     ''UIFunctionOutMulti'', ''UIMulti'', ''UIExpression'', ''UIText'', ''UIStatusFlag'',
     ''UIParameters'',
     ''adjust_probabilities'', ''reset_df_index'',
     ''logger'', ''PACKAGE_URL'', ''_IS_PREINSTALLED'',
     ''custom_resampler'', ''ASAnomalyHandler'', ''NoDataAnomalyScore'',
     ''SpectralAnomalyScore'', ''KMeansAnomalyScore'']"

definition py_builtins :: "string list" where
  "py_builtins =
    [''abs'', ''aiter'', ''all'', ''anext'', ''any'', ''ascii'', ''bin'', ''bool'',
     ''breakpoint'', ''bytearray'', ''bytes'', ''callable'', ''chr'', ''classmethod'',
     ''compile'', ''complex'', ''copyright'', ''credits'', ''delattr'', ''dict'', ''dir'',
     ''divmod'', ''enumerate'', ''eval'', ''exec'', ''exit'', ''filter'', ''float'',
     ''format'', ''frozenset'', ''getattr'', ''globals'', ''hasattr'', ''hash'', ''help'',
     ''hex'', ''id'', ''input'', ''int'', ''isinstance'', ''issubclass'', ''iter'', ''len'',
     ''license'', ''list'', ''locals'', ''map'', ''max'', ''memoryview'', ''min'', ''next'',
     ''object'', ''oct'', ''open'', ''ord'', ''pow'', ''print'', ''property'', ''quit'',
     ''range'', ''repr'', ''reversed'', ''round'', ''set'', ''setattr'', ''slice'',
     ''sorted'', ''staticmethod'', ''str'', ''sum'', ''super'', ''tuple'', ''type'',
     ''vars'', ''zip'', ''__import__'', ''__build_class__'', ''__debug__'', ''__doc__'',
     ''__loader__'', ''__name__'', ''__package__'', ''__spec__'',
     ''None'', ''True'', ''False'', ''Ellipsis'', ''NotImplemented'',
     ''BaseException'', ''BaseExceptionGroup'', ''Exception'', ''ExceptionGroup'',
     ''GeneratorExit'', ''KeyboardInterrupt'', ''SystemExit'', ''StopIteration'',
     ''StopAsyncIteration'', ''ArithmeticError'', ''FloatingPointError'', ''OverflowError'',
     ''ZeroDivisionError'', ''AssertionError'', ''AttributeError'', ''BufferError'',
     ''EOFError'', ''ImportError'', ''ModuleNotFoundError'', ''LookupError'', ''IndexError'',
     ''KeyError'', ''MemoryError'', ''NameError'', ''UnboundLocalError'', ''OSError'',
     ''EnvironmentError'', ''IOError'', ''BlockingIOError'', ''ChildProcessError'',
     ''ConnectionError'', ''BrokenPipeError'', ''ConnectionAbortedError'',
     ''ConnectionRefusedError'', ''ConnectionResetError'', ''FileExistsError'',
     ''FileNotFoundError'', ''InterruptedError'', ''IsADirectoryError'',
     ''NotADirectoryError'', ''PermissionError'', ''ProcessLookupError'', ''TimeoutError'',
     ''ReferenceError'', ''RuntimeError'', ''NotImplementedError'', ''RecursionError'',
     ''SyntaxError'', ''IndentationError'', ''TabError'', ''SystemError'', ''TypeError'',
     ''ValueError'', ''UnicodeError'', ''UnicodeDecodeError'', ''UnicodeEncodeError'',
     ''UnicodeTranslateError'', ''Warning'', ''BytesWarning'', ''DeprecationWarning'',
     ''EncodingWarning'', ''FutureWarning'', ''ImportWarning'',
     ''PendingDeprecationWarning'', ''ResourceWarning'', ''RuntimeWarning'',
     ''SyntaxWarning'', ''UnicodeWarning'', ''UserWarning'']"

text \<open>
  \<open>lookup_name locals n\<close>: the value bound to the name \<open>n\<close> inside a function whose local
  variables are \<open>locals\<close>. A global or builtin name is bound to some object of the module,
  which the model leaves opaque (\<open>None\<close> for the value); only a name bound nowhere raises.
\<close>

definition lookup_name :: "(string \<times> 'v) list \<Rightarrow> string \<Rightarrow> error + 'v option" where
  "lookup_name locals n =
     (case map_of locals n of
        Some v \<Rightarrow> Inr (Some v)
      | None \<Rightarrow> if n \<in> set module_globals \<or> n \<in> set py_builtins then Inr None
                else Inl (NameError n))"

text \<open>
  The attributes every instance inherits from \<open>object\<close>, and those the class statement of
  \<open>ASAnomalyHandler\<close> (lines 54-124) adds: its two methods and the class dunders.
\<close>

definition object_attrs :: "string list" where
  "object_attrs =
    [''__class__'', ''__delattr__'', ''__dir__'', ''__doc__'', ''__eq__'', ''__format__'',
     ''__ge__'', ''__getattribute__'', ''__getstate__'', ''__gt__'', ''__hash__'',
     ''__init__'', ''__init_subclass__'', ''__le__'', ''__lt__'', ''__ne__'', ''__new__'',
     ''__reduce__'', ''__reduce_ex__'', ''__repr__'', ''__setattr__'', ''__sizeof__'',
     ''__str__'', ''__subclasshook__'']"

definition ASAnomalyHandler_attrs :: "string list" where
  "ASAnomalyHandler_attrs =
    [''__module__'', ''__qualname__'', ''__doc__'', ''__dict__'', ''__weakref__'',
     ''__init__'', ''score'']"

definition getattr_self :: "(string \<times> 'v) list \<Rightarrow> string \<Rightarrow> error + 'v option" where
  "getattr_self inst a =
     (case map_of inst a of
        Some v \<Rightarrow> Inr (Some v)
      | None \<Rightarrow> if a \<in> set ASAnomalyHandler_attrs \<or> a \<in> set object_attrs then Inr None
                else Inl (AttributeError a))"

subsection \<open>Array values\<close>

text \<open>
  A cell of a table and an element of a numpy array is a double. The model keeps the
  three special values of IEEE arithmetic apart from the finite ones and computes with
  exact reals on the finite ones: rounding, overflow and the sign of zero are left out.
  \<open>NaN\<close> is also pandas' marker of a missing value.
\<close>

datatype fl = Fin real | PInf | NInf | NaN

fun isna :: "fl \<Rightarrow> bool" where
  "isna NaN = True"
| "isna _ = False"

fun fsign :: "fl \<Rightarrow> real" where
  "fsign (Fin a) = sgn a"
| "fsign PInf = 1"
| "fsign NInf = - 1"
| "fsign NaN = 0"

definition inf_of_sign :: "real \<Rightarrow> fl" where
  "inf_of_sign s = (if s > 0 then PInf else if s < 0 then NInf else NaN)"

fun fneg :: "fl \<Rightarrow> fl" where
  "fneg (Fin a) = Fin (- a)"
| "fneg PInf = NInf"
| "fneg NInf = PInf"
| "fneg NaN = NaN"

fun fadd :: "fl \<Rightarrow> fl \<Rightarrow> fl" where
  "fadd (Fin a) (Fin b) = Fin (a + b)"
| "fadd NaN _ = NaN"
| "fadd _ NaN = NaN"
| "fadd PInf NInf = NaN"
| "fadd NInf PInf = NaN"
| "fadd PInf _ = PInf"
| "fadd _ PInf = PInf"
| "fadd NInf _ = NInf"
| "fadd _ NInf = NInf"

definition fsub :: "fl \<Rightarrow> fl \<Rightarrow> fl" where
  "fsub x y = fadd x (fneg y)"

fun fmul :: "fl \<Rightarrow> fl \<Rightarrow> fl" where
  "fmul (Fin a) (Fin b) = Fin (a * b)"
| "fmul NaN _ = NaN"
| "fmul _ NaN = NaN"
| "fmul x y = inf_of_sign (fsign x * fsign y)"

fun fdiv :: "fl \<Rightarrow> fl \<Rightarrow> fl" where
  "fdiv (Fin a) (Fin b) = (if b = 0 then inf_of_sign (sgn a) else Fin (a / b))"
| "fdiv NaN _ = NaN"
| "fdiv _ NaN = NaN"
| "fdiv (Fin a) _ = Fin 0"
| "fdiv x (Fin b) = inf_of_sign (fsign x * (if b < 0 then - 1 else 1))"
| "fdiv _ _ = NaN"

fun fsqrt :: "fl \<Rightarrow> fl" where
  "fsqrt (Fin a) = (if a < 0 then NaN else Fin (sqrt a))"
| "fsqrt PInf = PInf"
| "fsqrt _ = NaN"

fun flog10 :: "fl \<Rightarrow> fl" where
  "flog10 (Fin a) = (if a < 0 then NaN else if a = 0 then NInf else Fin (log 10 a))"
| "flog10 PInf = PInf"
| "flog10 _ = NaN"

text \<open>The comparisons of IEEE arithmetic: each is false when an operand is \<open>NaN\<close>.\<close>

fun flt :: "fl \<Rightarrow> fl \<Rightarrow> bool" where
  "flt NaN _ = False"
| "flt _ NaN = False"
| "flt (Fin a) (Fin b) = (a < b)"
| "flt _ NInf = False"
| "flt NInf _ = True"
| "flt PInf _ = False"
| "flt _ PInf = True"

definition fgt :: "fl \<Rightarrow> fl \<Rightarrow> bool" where
  "fgt x y = flt y x"

definition feq :: "fl \<Rightarrow> fl \<Rightarrow> bool" where
  "feq x y = (x = y \<and> x \<noteq> NaN)"

text \<open>numpy sorts and searches with \<open>NaN\<close> after every other value.\<close>

fun sort_rank :: "fl \<Rightarrow> nat \<times> real" where
  "sort_rank NInf = (0, 0)"
| "sort_rank (Fin a) = (1, a)"
| "sort_rank PInf = (2, 0)"
| "sort_rank NaN = (3, 0)"

definition fsum :: "fl list \<Rightarrow> fl" where
  "fsum xs = foldl fadd (Fin 0) xs"

definition fl_of_int :: "int \<Rightarrow> fl" where
  "fl_of_int i = Fin (real_of_int i)"

definition fl_of_nat :: "nat \<Rightarrow> fl" where
  "fl_of_nat n = Fin (real n)"

text \<open>\<open>a.mean()\<close> and \<open>a.std(ddof=0)\<close> of a one-dimensional array.\<close>

definition np_mean :: "fl list \<Rightarrow> fl" where
  "np_mean xs = fdiv (fsum xs) (fl_of_nat (length xs))"

definition np_std0 :: "fl list \<Rightarrow> fl" where
  "np_std0 xs =
     (let arrmean = np_mean xs;
          x = map (\<lambda>a. fsub a arrmean) xs;
          x2 = map (\<lambda>d. fmul d d) x
      in fsqrt (fdiv (fsum x2) (fl_of_nat (length xs))))"

subsection \<open>Tables\<close>

text \<open>
  A DataFrame is its list of column names and its rows in their stored order; a row is
  its index key and its cells by column name. The multi-entity table is indexed by
  (entity, timestamp), an entity slice by timestamp alone. A timestamp is pandas' count
  of nanoseconds since the epoch, and a time difference is a count of nanoseconds.
\<close>

type_synonym time = int
type_synonym entity = string
type_synonym cells = "(string \<times> fl) list"

record 'k frame =
  columns :: "string list"
  rows :: "('k \<times> cells) list"

type_synonym table = "(entity \<times> time) frame"
type_synonym slice = "time frame"

definition cell :: "cells \<Rightarrow> string \<Rightarrow> fl" where
  "cell r c = (case map_of r c of Some v \<Rightarrow> v | None \<Rightarrow> NaN)"

definition index :: "'k frame \<Rightarrow> 'k list" where
  "index f = map fst (rows f)"

text \<open>\<open>c in f\<close>, \<open>f[c].to_numpy()\<close> and \<open>f[c] = v\<close> for a scalar and for an array.\<close>

definition has_column :: "string \<Rightarrow> 'k frame \<Rightarrow> bool" where
  "has_column c f = (c \<in> set (columns f))"

definition getitem :: "'k frame \<Rightarrow> string \<Rightarrow> error + fl list" where
  "getitem f c =
     (if has_column c f then Inr (map (\<lambda>(k, r). cell r c) (rows f))
      else Inl (KeyError c))"

definition add_column :: "string \<Rightarrow> string list \<Rightarrow> string list" where
  "add_column c cs = (if c \<in> set cs then cs else cs @ [c])"

definition setitem_scalar :: "string \<Rightarrow> fl \<Rightarrow> 'k frame \<Rightarrow> 'k frame" where
  "setitem_scalar c v f =
     \<lparr>columns = add_column c (columns f),
      rows = map (\<lambda>(k, r). (k, AList.update c v r)) (rows f)\<rparr>"

definition setitem_array :: "string \<Rightarrow> fl list \<Rightarrow> 'k frame \<Rightarrow> error + 'k frame" where
  "setitem_array c vs f =
     (if length vs \<noteq> length (rows f)
      then Inl (ValueError ''Length of values does not match length of index'')
      else Inr \<lparr>columns = add_column c (columns f),
                rows = map (\<lambda>((k, r), v). (k, AList.update c v r)) (zip (rows f) vs)\<rparr>)"

text \<open>
  \<open>np.unique(df.index.levels[0])\<close>: the entity identifiers of the index, each once, in
  ascending order. The levels of the index are taken to be the entities that occur in it.
\<close>

definition unique_entities :: "table \<Rightarrow> entity list" where
  "unique_entities df = sort (remdups (map (\<lambda>(k, r). fst k) (rows df)))"

text \<open>\<open>df.loc[[entity]]\<close>: the rows of one entity, in the table's order; a copy.\<close>

definition loc_entity :: "entity \<Rightarrow> table \<Rightarrow> error + table" where
  "loc_entity e df =
     (let sel = filter (\<lambda>(k, r). fst k = e) (rows df)
      in if sel = [] then Inl (KeyError e)
         else Inr \<lparr>columns = columns df, rows = sel\<rparr>)"

text \<open>\<open>dropna(how='all')\<close> drops the rows all of whose cells are missing.\<close>

definition dropna_all :: "'k frame \<Rightarrow> 'k frame" where
  "dropna_all f =
     \<lparr>columns = columns f,
      rows = filter (\<lambda>(k, r). \<not> list_all (\<lambda>c. isna (cell r c)) (columns f)) (rows f)\<rparr>"

text \<open>
  \<open>reset_index(level=[0])\<close> leaves the timestamp as the index. The entity level becomes an
  ordinary column that holds the same identifier in every row and that no later statement
  reads; the model does not carry it.
\<close>

definition reset_index_level0 :: "table \<Rightarrow> slice" where
  "reset_index_level0 f =
     \<lparr>columns = columns f, rows = map (\<lambda>(k, r). (snd k, r)) (rows f)\<rparr>"

text \<open>
  \<open>sort_index()\<close> returns the rows in ascending order of the timestamp. Rows of equal
  timestamp keep their stored order here; the timestamps of one entity are taken to be
  unique, and no property below depends on the order of equal ones.
\<close>

definition sort_index :: "slice \<Rightarrow> slice" where
  "sort_index f = \<lparr>columns = columns f, rows = sort_key fst (rows f)\<rparr>"

subsection \<open>Sampling Normalizer\<close>

text \<open>
  \<open>index.to_series().diff()\<close> is the list of differences of successive timestamps after
  a leading \<open>NaT\<close>; \<open>min()\<close> and \<open>mean()\<close> skip the \<open>NaT\<close> and are \<open>NaT\<close> themselves
  (\<open>None\<close> here) when no difference is left. The mean of time differences is a whole
  number of nanoseconds, the fraction cut off.
\<close>

definition diff :: "time list \<Rightarrow> int list" where
  "diff ts = map (\<lambda>(a, b). b - a) (zip ts (tl ts))"

definition diff_min :: "time list \<Rightarrow> int option" where
  "diff_min ts = (case diff ts of [] \<Rightarrow> None | d # ds \<Rightarrow> Some (fold min ds d))"

definition trunc_div :: "int \<Rightarrow> int \<Rightarrow> int" where
  "trunc_div a b = sgn a * (\<bar>a\<bar> div b)"

definition diff_mean :: "time list \<Rightarrow> int option" where
  "diff_mean ts =
     (case diff ts of [] \<Rightarrow> None
      | d # ds \<Rightarrow> Some (trunc_div (sum_list (d # ds)) (int (length (d # ds)))))"

definition five_seconds :: int where
  "five_seconds = 5000000000"

text \<open>Lines 170-172, 312-314 and 445-447.\<close>

definition mindelta_of :: "slice \<Rightarrow> int" where
  "mindelta_of dfe_orig =
     (case diff_min (index dfe_orig) of
        None \<Rightarrow> five_seconds
      | Some mindelta \<Rightarrow> if mindelta = 0 then five_seconds else mindelta)"

text \<open>Lines 175-177.\<close>

definition meandelta_of :: "slice \<Rightarrow> int" where
  "meandelta_of dfe_orig =
     (let mindelta = mindelta_of dfe_orig
      in case diff_mean (index dfe_orig) of
           None \<Rightarrow> mindelta
         | Some meandelta \<Rightarrow> if meandelta = 0 then mindelta else meandelta)"

subsection \<open>Gap Imputer\<close>

text \<open>
  \<open>np.interp(x, xp, fp)\<close> on ascending sample points: the value of the nearest end
  outside the range, the sample itself where \<open>x\<close> meets one, and the point on the line
  through the two neighbouring samples otherwise.
\<close>

definition np_interp :: "time \<Rightarrow> (time \<times> fl) list \<Rightarrow> fl" where
  "np_interp x pts =
     (case (filter (\<lambda>(u, v). u \<le> x) pts, filter (\<lambda>(u, v). x < u) pts) of
        ([], []) \<Rightarrow> NaN
      | ([], (u1, v1) # _) \<Rightarrow> v1
      | (b # bs, []) \<Rightarrow> snd (last (b # bs))
      | (b # bs, (u1, v1) # _) \<Rightarrow>
          (let (u0, v0) = last (b # bs)
           in if x = u0 then v0
              else fadd (fmul (fdiv (fsub v1 v0) (fl_of_int (u1 - u0))) (fl_of_int (x - u0))) v0))"

text \<open>
  \<open>interpolate(method='time')\<close> works column by column: a missing cell after the first
  valid cell of its column gets \<open>np.interp\<close> of its timestamp over the valid cells; the
  missing cells before the first valid one stay missing.
\<close>

fun fill_time :: "(time \<times> fl) list \<Rightarrow> bool \<Rightarrow> (time \<times> fl) list \<Rightarrow> fl list" where
  "fill_time valid seen [] = []"
| "fill_time valid seen ((t, v) # rest) =
     (if isna v then (if seen then np_interp t valid else NaN) # fill_time valid seen rest
      else v # fill_time valid True rest)"

definition interpolate_column :: "(time \<times> fl) list \<Rightarrow> fl list" where
  "interpolate_column col = fill_time (filter (\<lambda>(t, v). \<not> isna v) col) False col"

definition put_column :: "string \<Rightarrow> fl list \<Rightarrow> 'k frame \<Rightarrow> 'k frame" where
  "put_column c vs f =
     \<lparr>columns = columns f,
      rows = map (\<lambda>((k, r), v). (k, AList.update c v r)) (zip (rows f) vs)\<rparr>"

definition interpolate_time :: "slice \<Rightarrow> slice" where
  "interpolate_time f =
     foldl (\<lambda>g c. put_column c
              (interpolate_column (map (\<lambda>(t, r). (t, cell r c)) (rows g))) g)
           f (columns f)"

definition fillna_array :: "fl \<Rightarrow> fl list \<Rightarrow> fl list" where
  "fillna_array v xs = map (\<lambda>x. if isna x then v else x) xs"

text \<open>Lines 48-51.\<close>

definition custom_resampler :: "fl list \<Rightarrow> fl" where
  "custom_resampler array_like = (if length array_like > 0 then hd array_like else NaN)"

text \<open>
  \<open>resample(freq)\<close> of a slice: buckets of width \<open>freq\<close>, closed on the left and labelled
  by their left edge, on the grid anchored at the midnight before the first timestamp;
  the first bucket holds the first timestamp and the last one the last timestamp.
  \<open>apply(custom_resampler)\<close> calls the function on each column of each bucket.
\<close>

definition day_nanos :: int where
  "day_nanos = 86400000000000"

definition resample_labels :: "int \<Rightarrow> time list \<Rightarrow> time list" where
  "resample_labels freq ts =
     (case ts of [] \<Rightarrow> []
      | t0 # rest \<Rightarrow>
          (let first = fold min rest t0;
               lst = fold max rest t0;
               start_day = first - first mod day_nanos;
               foffset = (first - start_day) mod freq;
               fresult = first - foffset
           in map (\<lambda>k. fresult + int k * freq) [0 ..< nat ((lst - fresult) div freq) + 1]))"

definition bucket :: "int \<Rightarrow> time \<Rightarrow> slice \<Rightarrow> (time \<times> cells) list" where
  "bucket freq g f = filter (\<lambda>(t, r). g \<le> t \<and> t < g + freq) (rows f)"

definition resample_apply :: "int \<Rightarrow> slice \<Rightarrow> error + slice" where
  "resample_apply freq f =
     (if freq \<le> 0 then Inl (ValueError ''Invalid frequency'')
      else Inr \<lparr>columns = columns f,
                rows = map (\<lambda>g. (g, map (\<lambda>c. (c, custom_resampler
                                               (map (\<lambda>(t, r). cell r c) (bucket freq g f))))
                                     (columns f)))
                           (resample_labels freq (index f))\<rparr>)"

text \<open>\<open>f.where(f.isna(), other)\<close> keeps the missing cells and sets every other cell.\<close>

definition where_isna :: "fl \<Rightarrow> 'k frame \<Rightarrow> 'k frame" where
  "where_isna other f =
     \<lparr>columns = columns f,
      rows = map (\<lambda>(k, r). (k, map (\<lambda>(c, v). (c, if isna v then v else other)) r)) (rows f)\<rparr>"

definition fillna :: "fl \<Rightarrow> 'k frame \<Rightarrow> 'k frame" where
  "fillna v f =
     \<lparr>columns = columns f,
      rows = map (\<lambda>(k, r). (k, map (\<lambda>(c, x). (c, if isna x then v else x)) r)) (rows f)\<rparr>"

subsection \<open>Transformers and the libraries they call\<close>

text \<open>
  The attributes the three constructors set (lines 130-147, 273-290 and 410-424).
  \<open>np.maximum(windowsize, 1)\<close> is a numpy integer.
\<close>

record transformer =
  input_item :: string
  windowsize :: int
  frame_rate :: int
  output_item :: string

record spectral = transformer +
  windowoverlap :: int

record kmeans = transformer +
  step :: int

definition NoDataAnomalyScore_init :: "string \<Rightarrow> int \<Rightarrow> string \<Rightarrow> spectral" where
  "NoDataAnomalyScore_init inp ws out =
     (let w = max ws 1
      in \<lparr>input_item = inp, windowsize = w, frame_rate = 1, output_item = out,
          windowoverlap = (if w = 1 then 0 else w - max (w div 12) 1)\<rparr>)"

definition SpectralAnomalyScore_init :: "string \<Rightarrow> int \<Rightarrow> string \<Rightarrow> spectral" where
  "SpectralAnomalyScore_init inp ws out =
     (let w = max ws 1
      in \<lparr>input_item = inp, windowsize = w, frame_rate = 1, output_item = out,
          windowoverlap = (if w = 1 then 0 else w - max (w div 12) 1)\<rparr>)"

definition KMeansAnomalyScore_init :: "string \<Rightarrow> int \<Rightarrow> string \<Rightarrow> kmeans" where
  "KMeansAnomalyScore_init inp ws out =
     \<lparr>input_item = inp, windowsize = max ws 1, frame_rate = 1, output_item = out, step = 1\<rparr>"

text \<open>
  Two numerical routines come from libraries outside the repository and are parameters of
  the model: \<open>scipy.signal.spectrogram\<close> (of the signal, \<open>nperseg\<close> and \<open>noverlap\<close>, with
  the sample rate, window, detrending and scaling the code fixes), which returns the
  frequency axis, the segment times and the magnitudes, one row per frequency; and the fit
  of \<open>pyod\<close>'s \<open>CBLOF\<close> (of the number of clusters and the windows), which returns the
  \<open>decision_scores_\<close>. Either may raise. \<open>interp1d_minval\<close> is the least number of points
  \<open>scipy.interpolate.interp1d\<close> accepts for a linear interpolant, which differs between
  releases of scipy.
\<close>

record library =
  spectrogram :: "fl list \<Rightarrow> int \<Rightarrow> int \<Rightarrow> error + (fl list \<times> fl list \<times> fl list list)"
  cblof_decision_scores :: "nat \<Rightarrow> fl list list \<Rightarrow> error + fl list"
  interp1d_minval :: nat

subsection \<open>Spectral-Energy Extractor\<close>

text \<open>Lines 203-205 and 337-339.\<close>

definition mask_freqs :: "int \<Rightarrow> fl list \<Rightarrow> fl list" where
  "mask_freqs ws freqsTS =
     (let freqsTSb = map (\<lambda>f. if fgt f (fdiv (Fin 2) (fl_of_int ws)) then Fin 1 else Fin 0) freqsTS;
          freqsTS = map (\<lambda>(f, b). fmul f b) (zip freqsTS freqsTSb)
      in map (\<lambda>f. if feq f (Fin 0) then fdiv (Fin 1) (fl_of_int ws) else f) freqsTS)"

text \<open>
  \<open>np.dot(SxTS.T, freqsTS)\<close>: the product of the transposed magnitudes with the frequency
  axis, one entry per segment; numpy refuses operands whose shapes do not fit.
\<close>

definition np_dot_T :: "fl list list \<Rightarrow> fl list \<Rightarrow> error + fl list" where
  "np_dot_T SxTS freqsTS =
     (if length SxTS \<noteq> length freqsTS then Inl (ValueError ''shapes not aligned'')
      else Inr (map (\<lambda>col. fsum (map (\<lambda>(a, b). fmul a b) (zip col freqsTS)))
                    (transpose SxTS)))"

text \<open>Lines 211 and 345.\<close>

definition zscore :: "fl list \<Rightarrow> fl list" where
  "zscore ETS = map (\<lambda>e. fdiv (fsub e (np_mean ETS)) (np_std0 ETS)) ETS"

text \<open>\<open>a.max()\<close>, which the logging lines 212 and 346 evaluate, raises on an empty array.\<close>

definition np_max :: "fl list \<Rightarrow> error + unit" where
  "np_max xs =
     (if xs = [] then Inl (ValueError ''zero-size array to reduction operation maximum'')
      else Inr ())"

text \<open>Lines 198-211: the features of the gap-presence variant.\<close>

definition NoData_features :: "library \<Rightarrow> spectral \<Rightarrow> fl list \<Rightarrow> error + (fl list \<times> fl list)" where
  "NoData_features lib self temperature =
     bind (spectrogram lib temperature (windowsize self) (windowoverlap self))
       (\<lambda>(freqsTS, timesTS, SxTS).
     bind (np_dot_T SxTS (mask_freqs (windowsize self) freqsTS))
       (\<lambda>ETS. Inr (timesTS, zscore ETS)))"

text \<open>Lines 332-345: the features of the raw-signal variant.\<close>

definition Spectral_features :: "library \<Rightarrow> spectral \<Rightarrow> fl list \<Rightarrow> error + (fl list \<times> fl list)" where
  "Spectral_features lib self temperature =
     bind (spectrogram lib temperature (windowsize self) (windowoverlap self))
       (\<lambda>(freqsTS, timesTS, SxTS).
     bind (np_dot_T SxTS (mask_freqs (windowsize self) freqsTS))
       (\<lambda>dot. let ETS = map flog10 dot in Inr (timesTS, zscore ETS)))"

subsection \<open>Outlier-Clustering Extractor\<close>

text \<open>\<open>skimage.util.view_as_windows\<close> of a one-dimensional array.\<close>

definition view_as_windows :: "fl list \<Rightarrow> int \<Rightarrow> int \<Rightarrow> error + fl list list" where
  "view_as_windows arr window_shape stp =
     (if stp < 1 then Inl (ValueError ''`step` must be >= 1'')
      else if int (length arr) - window_shape < 0 then Inl (ValueError ''`window_shape` is too large'')
      else if window_shape - 1 < 0 then Inl (ValueError ''`window_shape` is too small'')
      else Inr (map (\<lambda>i. take (nat window_shape) (drop (i * nat stp) arr))
                    [0 ..< nat ((int (length arr) - window_shape) div stp) + 1]))"

text \<open>
  \<open>np.linspace(start, stop, num)\<close> for \<open>num\<close> not negative; the scorers call it with
  \<open>num\<close> at least 2.
\<close>

definition linspace :: "real \<Rightarrow> real \<Rightarrow> int \<Rightarrow> fl list" where
  "linspace start stop num =
     (if num = 1 then [Fin start]
      else map (\<lambda>i. Fin (start + real i * ((stop - start) / real_of_int (num - 1))))
               [0 ..< nat num])"

text \<open>Line 481: the window centres, for a signal of \<open>n\<close> samples.\<close>

definition KMeans_timesTS :: "kmeans \<Rightarrow> nat \<Rightarrow> fl list" where
  "KMeans_timesTS self n =
     linspace (real_of_int (windowsize self div 2))
              (real_of_int (int n - windowsize self div 2 + 1))
              (int n - windowsize self + 1)"

text \<open>Lines 466-481: the windows, the scores and the window centres.\<close>

definition KMeans_features :: "library \<Rightarrow> kmeans \<Rightarrow> fl list \<Rightarrow> error + (fl list \<times> fl list)" where
  "KMeans_features lib self temperature =
     bind (view_as_windows temperature (windowsize self) (step self))
       (\<lambda>slices.
     let n_clus = (if windowsize self > 1 then 40 else 20)
     in bind (cblof_decision_scores lib n_clus slices)
       (\<lambda>pred_score.
     let timesTS = KMeans_timesTS self (length temperature)
     in Inr (timesTS, pred_score)))"

subsection \<open>Score Stretcher\<close>

text \<open>
  \<open>interp1d(x, y, kind='linear', fill_value='extrapolate')\<close> checks the lengths and sorts
  the points by \<open>x\<close>. A call looks the new point up among the sorted \<open>x\<close>, clips the
  position so that a point on either side is left, and evaluates the line through the two.
\<close>

definition interp1d :: "library \<Rightarrow> fl list \<Rightarrow> fl list \<Rightarrow> error + (fl \<times> fl) list" where
  "interp1d lib x y =
     (if length x \<noteq> length y
      then Inl (ValueError ''x and y arrays must be equal in length along interpolation axis.'')
      else if length x < interp1d_minval lib \<or> length x = 0
      then Inl (ValueError ''x and y arrays must have at least minval entries'')
      else Inr (sort_key (\<lambda>p. sort_rank (fst p)) (zip x y)))"

definition searchsorted :: "fl list \<Rightarrow> fl \<Rightarrow> nat" where
  "searchsorted xs v = length (filter (\<lambda>a. sort_rank a < sort_rank v) xs)"

definition call_linear :: "(fl \<times> fl) list \<Rightarrow> fl \<Rightarrow> fl" where
  "call_linear pts x_new =
     (let n = length pts;
          hi = min (max (searchsorted (map fst pts) x_new) 1) (n - 1);
          lo = (if hi = 0 then n - 1 else hi - 1);
          (x_lo, y_lo) = pts ! lo;
          (x_hi, y_hi) = pts ! hi;
          slope = fdiv (fsub y_hi y_lo) (fsub x_hi x_lo)
      in fadd (fmul slope (fsub x_new x_lo)) y_lo)"

text \<open>\<open>Linear(np.arange(0, size, 1))\<close>, lines 216-217, 350-351 and 486-489.\<close>

definition stretch :: "library \<Rightarrow> fl list \<Rightarrow> fl list \<Rightarrow> nat \<Rightarrow> error + fl list" where
  "stretch lib timesTS score n =
     bind (interp1d lib timesTS score)
       (\<lambda>Linear. Inr (map (\<lambda>i. call_linear Linear (fl_of_nat i)) [0 ..< n]))"

subsection \<open>Realignment Merger\<close>

text \<open>
  \<open>pd.merge_asof(left, right, left_index=True, right_index=True, direction='nearest',
  tolerance=tol)\<close> with a named series on the right keeps every row of the left frame, in
  order. For a left timestamp it takes the last right row at or before it and the first
  right row at or after it, each only when within the tolerance, and of two candidates
  the nearer one, the earlier on a tie. A left row without a candidate gets a missing
  value. A column name both sides have gets the suffixes \<open>_x\<close> and \<open>_y\<close>.
\<close>

definition asof_backward :: "(time \<times> fl) list \<Rightarrow> time \<Rightarrow> int \<Rightarrow> (time \<times> fl) option" where
  "asof_backward right t tol =
     (case filter (\<lambda>(u, v). u \<le> t) right of
        [] \<Rightarrow> None
      | b # bs \<Rightarrow> (let (u, v) = last (b # bs) in if t - u > tol then None else Some (u, v)))"

definition asof_forward :: "(time \<times> fl) list \<Rightarrow> time \<Rightarrow> int \<Rightarrow> (time \<times> fl) option" where
  "asof_forward right t tol =
     (case filter (\<lambda>(u, v). u \<ge> t) right of
        [] \<Rightarrow> None
      | (u, v) # _ \<Rightarrow> if u - t > tol then None else Some (u, v))"

definition asof_nearest :: "(time \<times> fl) list \<Rightarrow> time \<Rightarrow> int \<Rightarrow> fl option" where
  "asof_nearest right t tol =
     (case (asof_backward right t tol, asof_forward right t tol) of
        (Some (ub, vb), Some (uf, vf)) \<Rightarrow> if t - ub \<le> uf - t then Some vb else Some vf
      | (Some (ub, vb), None) \<Rightarrow> Some vb
      | (None, Some (uf, vf)) \<Rightarrow> Some vf
      | (None, None) \<Rightarrow> None)"

definition merge_asof_nearest :: "slice \<Rightarrow> string \<Rightarrow> (time \<times> fl) list \<Rightarrow> int \<Rightarrow> error + slice" where
  "merge_asof_nearest left name right tolerance =
     (if tolerance < 0 then Inl (MergeError ''tolerance must be positive'')
      else if \<not> sorted (index left) then Inl (ValueError ''left keys must be sorted'')
      else if \<not> sorted (map fst right) then Inl (ValueError ''right keys must be sorted'')
      else
        (let lname = (\<lambda>c. if c = name then name @ ''_x'' else c);
             rname = (if has_column name left then name @ ''_y'' else name);
             cols = map lname (columns left) @ [rname]
         in if \<not> distinct cols then Inl (MergeError ''suffixes cause duplicate columns'')
            else Inr \<lparr>columns = cols,
                      rows = map (\<lambda>(t, r).
                               (t, map (\<lambda>c. (lname c, cell r c)) (columns left) @
                                   [(rname, case asof_nearest right t tolerance of
                                              Some v \<Rightarrow> v | None \<Rightarrow> NaN)]))
                             (rows left)\<rparr>))"

text \<open>Lines 224-233, 358-367 and 495-504: the merge and the choice of the score column.\<close>

definition realign :: "'a transformer_scheme \<Rightarrow> slice \<Rightarrow> slice \<Rightarrow> int \<Rightarrow> error + fl list" where
  "realign self dfe_orig dfe mindelta =
     bind (getitem dfe (output_item self))
       (\<lambda>right.
     bind (merge_asof_nearest dfe_orig (output_item self) (zip (index dfe) right) mindelta)
       (\<lambda>dfe_orig.
     if has_column (output_item self @ ''_y'') dfe_orig
       then getitem dfe_orig (output_item self @ ''_y'')
     else if has_column (output_item self) dfe_orig
       then getitem dfe_orig (output_item self)
     else getitem dfe_orig (input_item self)))"

subsection \<open>Entity Driver\<close>

text \<open>
  \<open>df.loc[idx[entity, :], c] = values\<close> writes the array into the cells of column \<open>c\<close> in
  the rows of the entity, in the table's row order.
\<close>

fun assign_rows ::
  "entity \<Rightarrow> string \<Rightarrow> fl list \<Rightarrow> ((entity \<times> time) \<times> cells) list \<Rightarrow> ((entity \<times> time) \<times> cells) list" where
  "assign_rows e c vs [] = []"
| "assign_rows e c [] (row # rest) = row # rest"
| "assign_rows e c (v # vs) ((k, r) # rest) =
     (if fst k = e then (k, AList.update c v r) # assign_rows e c vs rest
      else (k, r) # assign_rows e c (v # vs) rest)"

definition loc_setitem :: "entity \<Rightarrow> string \<Rightarrow> fl list \<Rightarrow> table \<Rightarrow> error + table" where
  "loc_setitem e c vs df =
     (if length vs \<noteq> length (filter (\<lambda>(k, r). fst k = e) (rows df))
      then Inl (ValueError ''Must have equal len keys and value when setting with an iterable'')
      else Inr \<lparr>columns = add_column c (columns df), rows = assign_rows e c vs (rows df)\<rparr>)"

text \<open>
  The three loop bodies differ in two places only, the lines that build the signal array
  and the lines that turn it into a full-length score; the rest is the same text in each
  class. Lines 162-167, 304-309 and 437-442 cut the two sorted slices of the entity.
\<close>

definition entity_slices :: "table \<Rightarrow> slice \<times> slice" where
  "entity_slices sel =
     (let dfe = dropna_all sel;
          dfe_orig = sel;
          dfe = sort_index (reset_index_level0 dfe);
          dfe_orig = sort_index (reset_index_level0 dfe_orig)
      in (dfe, dfe_orig))"

text \<open>
  Lines 162-189: the slices, the tolerance and the signal of the gap-presence scorer. The
  result is \<open>(dfe, dfe_orig, mindelta, temperature)\<close>.
\<close>

definition NoData_signal :: "spectral \<Rightarrow> table \<Rightarrow> error + (slice \<times> slice \<times> int \<times> fl list)" where
  "NoData_signal self sel =
     (let (dfe, dfe_orig) = entity_slices sel;
          mindelta = mindelta_of dfe_orig;
          meandelta = meandelta_of dfe_orig
      in bind (resample_apply meandelta dfe_orig)
        (\<lambda>upsampled_na.
      let dfe = fillna (Fin 1) (where_isna (Fin 0) upsampled_na)
      in bind (getitem dfe (input_item self))
        (\<lambda>temperature. Inr (dfe, dfe_orig, mindelta, temperature))))"

text \<open>
  Lines 304-323 and 437-457, the same in the raw-signal and the clustering scorer: the
  slices, the tolerance and the interpolated signal.
\<close>

definition interpolated_signal ::
  "'a transformer_scheme \<Rightarrow> table \<Rightarrow> error + (slice \<times> slice \<times> int \<times> fl list)" where
  "interpolated_signal self sel =
     (let (dfe, dfe_orig) = entity_slices sel;
          mindelta = mindelta_of dfe_orig
      in bind (getitem dfe (input_item self))
        (\<lambda>Size.
      let dfe = interpolate_time dfe
      in bind (getitem dfe (input_item self))
        (\<lambda>col.
      let temperature = fillna_array (Fin 0) col
      in Inr (dfe, dfe_orig, mindelta, temperature))))"

text \<open>Lines 198-217, 332-351 and 466-489: from the signal to the stretched score.\<close>

definition NoData_stretched :: "library \<Rightarrow> spectral \<Rightarrow> fl list \<Rightarrow> error + fl list" where
  "NoData_stretched lib self temperature =
     bind (NoData_features lib self temperature)
       (\<lambda>(timesTS, ets_zscore).
     bind (np_max ets_zscore)
       (\<lambda>_. stretch lib timesTS ets_zscore (length temperature)))"

definition Spectral_stretched :: "library \<Rightarrow> spectral \<Rightarrow> fl list \<Rightarrow> error + fl list" where
  "Spectral_stretched lib self temperature =
     bind (Spectral_features lib self temperature)
       (\<lambda>(timesTS, ets_zscore).
     bind (np_max ets_zscore)
       (\<lambda>_. stretch lib timesTS ets_zscore (length temperature)))"

definition KMeans_stretched :: "library \<Rightarrow> kmeans \<Rightarrow> fl list \<Rightarrow> error + fl list" where
  "KMeans_stretched lib self temperature =
     bind (KMeans_features lib self temperature)
       (\<lambda>(timesTS, pred_score). stretch lib timesTS pred_score (length temperature))"

text \<open>
  The body of the loop up to the write, for the signal lines \<open>signal\<close> and the score lines
  \<open>stretched\<close>: \<open>None\<close> when the signal is not longer than the window (lines 194, 328 and
  462), and otherwise the realigned scores that the rows of the entity are to get.
\<close>

definition score_entity ::
  "(table \<Rightarrow> error + (slice \<times> slice \<times> int \<times> fl list)) \<Rightarrow> (fl list \<Rightarrow> error + fl list) \<Rightarrow>
   'a transformer_scheme \<Rightarrow> table \<Rightarrow> entity \<Rightarrow> error + fl list option" where
  "score_entity signal stretched self df_copy entity =
     bind (loc_entity entity df_copy)
       (\<lambda>sel.
     bind (signal sel)
       (\<lambda>(dfe, dfe_orig, mindelta, temperature).
     if int (length temperature) > windowsize self then
       bind (stretched temperature)
         (\<lambda>scoreI.
       bind (setitem_array (output_item self) scoreI dfe)
         (\<lambda>dfe.
       bind (realign self dfe_orig dfe mindelta)
         (\<lambda>zScoreII. Inr (Some zScoreII))))
     else Inr None))"

definition NoData_entity :: "library \<Rightarrow> spectral \<Rightarrow> table \<Rightarrow> entity \<Rightarrow> error + fl list option" where
  "NoData_entity lib self = score_entity (NoData_signal self) (NoData_stretched lib self) self"

definition Spectral_entity :: "library \<Rightarrow> spectral \<Rightarrow> table \<Rightarrow> entity \<Rightarrow> error + fl list option" where
  "Spectral_entity lib self =
     score_entity (interpolated_signal self) (Spectral_stretched lib self) self"

definition KMeans_entity :: "library \<Rightarrow> kmeans \<Rightarrow> table \<Rightarrow> entity \<Rightarrow> error + fl list option" where
  "KMeans_entity lib self =
     score_entity (interpolated_signal self) (KMeans_stretched lib self) self"

text \<open>
  Tables are objects: the store holds them by address, \<open>df.copy()\<close> allocates a new one,
  and an assignment into a table replaces the object at its address. The loop of each
  \<open>execute\<close> reads the copy and writes the scores of one entity after the other into it
  (lines 237, 372 and 508).
\<close>

type_synonym heap = "table list"

definition copy :: "heap \<Rightarrow> nat \<Rightarrow> heap \<times> nat" where
  "copy h df = (h @ [h ! df], length h)"

fun for_entities ::
  "(table \<Rightarrow> entity \<Rightarrow> error + fl list option) \<Rightarrow> string \<Rightarrow> nat \<Rightarrow> heap \<Rightarrow> entity list \<Rightarrow> error + heap" where
  "for_entities body out df_copy h [] = Inr h"
| "for_entities body out df_copy h (entity # entities) =
     bind (body (h ! df_copy) entity)
       (\<lambda>res. case res of
          None \<Rightarrow> for_entities body out df_copy h entities
        | Some zScoreII \<Rightarrow>
            bind (loc_setitem entity out zScoreII (h ! df_copy))
              (\<lambda>t. for_entities body out df_copy (h[df_copy := t]) entities))"

text \<open>
  Lines 149-241, 292-378 and 426-513. The statement \<open>df_copy.sort_index()\<close> builds a sorted
  table and drops it, so the copy keeps the row order of \<open>df\<close>. \<open>trace_append\<close> belongs
  to the host's base class and does not touch a table.
\<close>

definition NoDataAnomalyScore_execute :: "library \<Rightarrow> spectral \<Rightarrow> heap \<Rightarrow> nat \<Rightarrow> error + heap \<times> nat" where
  "NoDataAnomalyScore_execute lib self h df =
     (let (h, df_copy) = copy h df;
          entities = unique_entities (h ! df);
          h = h[df_copy := setitem_scalar (output_item self) (Fin 0) (h ! df_copy)]
      in bind (for_entities (NoData_entity lib self) (output_item self) df_copy h entities)
           (\<lambda>h. Inr (h, df_copy)))"

definition SpectralAnomalyScore_execute :: "library \<Rightarrow> spectral \<Rightarrow> heap \<Rightarrow> nat \<Rightarrow> error + heap \<times> nat" where
  "SpectralAnomalyScore_execute lib self h df =
     (let (h, df_copy) = copy h df;
          entities = unique_entities (h ! df);
          h = h[df_copy := setitem_scalar (output_item self) (Fin 0) (h ! df_copy)]
      in bind (for_entities (Spectral_entity lib self) (output_item self) df_copy h entities)
           (\<lambda>h. Inr (h, df_copy)))"

definition KMeansAnomalyScore_execute :: "library \<Rightarrow> kmeans \<Rightarrow> heap \<Rightarrow> nat \<Rightarrow> error + heap \<times> nat" where
  "KMeansAnomalyScore_execute lib self h df =
     (let (h, df_copy) = copy h df;
          entities = unique_entities (h ! df_copy);
          h = h[df_copy := setitem_scalar (output_item self) (Fin 0) (h ! df_copy)]
      in bind (for_entities (KMeans_entity lib self) (output_item self) df_copy h entities)
           (\<lambda>h. Inr (h, df_copy)))"

subsection \<open>The scaffold class\<close>

text \<open>
  The values the names and attributes of \<open>ASAnomalyHandler\<close> would hold. A scorer is known
  by its \<open>execute\<close> method.
\<close>

datatype pyval =
    PyStr string
  | PyTable table
  | PyEntities "entity list"
  | PyScorer "fl list \<Rightarrow> error + fl list"

text \<open>
  Lines 58-67. \<open>__init__\<close> starts on a new instance, whose dictionary is empty. The
  operations on the table that \<open>self.df\<close> would give are parameters: \<open>unique_levels0\<close> for
  \<open>np.unique(_.levels[0])\<close> and \<open>set_and_sort\<close> for lines 66-67.
\<close>

definition ASAnomalyHandler_init ::
  "(pyval option \<Rightarrow> error + pyval) \<Rightarrow> (pyval option \<Rightarrow> pyval option \<Rightarrow> error + unit) \<Rightarrow>
   string \<Rightarrow> string \<Rightarrow> pyval \<Rightarrow> error + (string \<times> pyval) list" where
  "ASAnomalyHandler_init unique_levels0 set_and_sort inp out scorer =
     (let self = []
      in bind (getattr_self self ''df'')
        (\<lambda>df.
      bind (unique_levels0 df)
        (\<lambda>entities.
      let self = AList.update ''entities'' entities self;
          self = AList.update ''input_item'' (PyStr inp) self;
          self = AList.update ''output_item'' (PyStr out) self
      in bind (getattr_self self ''df'')
        (\<lambda>df.
      bind (getattr_self self ''output_item'')
        (\<lambda>item.
      bind (set_and_sort df item)
        (\<lambda>_. Inr self))))))"

text \<open>
  Lines 69-124. The names the body of \<open>score\<close> assigns, with its parameters, are its local
  variables; it reads \<open>entities\<close> in line 73, before anything else, and \<open>scorer\<close> in
  line 94.
\<close>

definition score_local_names :: "string list" where
  "score_local_names =
    [''self'', ''df'', ''entity'', ''dfe'', ''dfe_orig'', ''mindelta'', ''Size'',
     ''temperature'', ''pred_score'', ''stretchFactor'', ''timesTS'', ''Linear'',
     ''adaptedScore'', ''idx'']"

definition attr_string :: "(string \<times> pyval) list \<Rightarrow> string \<Rightarrow> error + string" where
  "attr_string self a =
     bind (getattr_self self a)
       (\<lambda>v. case v of Some (PyStr s) \<Rightarrow> Inr s | _ \<Rightarrow> Inl (TypeError a))"

text \<open>Lines 75-122, the body of the loop for one entity.\<close>

definition ASAnomalyHandler_score_entity ::
  "library \<Rightarrow> (string \<Rightarrow> pyval) \<Rightarrow> (string \<times> pyval) list \<Rightarrow> table \<Rightarrow> entity \<Rightarrow> error + table" where
  "ASAnomalyHandler_score_entity lib locals self df entity =
     bind (loc_entity entity df)
       (\<lambda>sel.
     let (dfe, dfe_orig) = entity_slices sel;
         mindelta = mindelta_of dfe_orig
     in bind (attr_string self ''input_item'')
       (\<lambda>inp.
     bind (getitem dfe inp)
       (\<lambda>Size.
     let dfe = interpolate_time dfe
     in bind (getitem dfe inp)
       (\<lambda>col.
     let temperature = fillna_array (Fin 0) col
     in bind (lookup_name (map (\<lambda>n. (n, locals n)) score_local_names) ''scorer'')
       (\<lambda>scorer.
     bind (case scorer of Some (PyScorer execute) \<Rightarrow> execute temperature
                        | _ \<Rightarrow> Inl (AttributeError ''execute''))
       (\<lambda>pred_score.
     let stretchFactor = int (length temperature) - int (length pred_score);
         timesTS = linspace (real_of_int (stretchFactor div 2))
                     (real_of_int (int (length temperature) - stretchFactor div 2 + 1))
                     (int (length temperature) - stretchFactor div 2 * 2 + 1)
     in bind (stretch lib timesTS pred_score (length temperature))
       (\<lambda>stretched.
     bind (attr_string self ''output_item'')
       (\<lambda>out.
     bind (setitem_array out stretched dfe)
       (\<lambda>dfe.
     bind (getitem dfe out)
       (\<lambda>right.
     bind (merge_asof_nearest dfe_orig out (zip (index dfe) right) mindelta)
       (\<lambda>dfe_orig.
     bind (if has_column (out @ ''_y'') dfe_orig then getitem dfe_orig (out @ ''_y'')
           else getitem dfe_orig inp)
       (\<lambda>adaptedScore. loc_setitem entity out adaptedScore df))))))))))))"

fun score_loop ::
  "library \<Rightarrow> (string \<Rightarrow> pyval) \<Rightarrow> (string \<times> pyval) list \<Rightarrow> table \<Rightarrow> entity list \<Rightarrow> error + table" where
  "score_loop lib locals self df [] = Inr df"
| "score_loop lib locals self df (entity # entities) =
     bind (ASAnomalyHandler_score_entity lib locals self df entity)
       (\<lambda>df. score_loop lib locals self df entities)"

definition ASAnomalyHandler_score ::
  "library \<Rightarrow> (string \<Rightarrow> pyval) \<Rightarrow> (string \<times> pyval) list \<Rightarrow> table \<Rightarrow> error + table" where
  "ASAnomalyHandler_score lib locals self df =
     bind (lookup_name (map (\<lambda>n. (n, locals n)) score_local_names) ''entities'')
       (\<lambda>entities. case entities of
          Some (PyEntities es) \<Rightarrow> score_loop lib locals self df es
        | _ \<Rightarrow> Inl (TypeError ''object is not iterable''))"

subsection \<open>Notions used to state the properties\<close>

text \<open>The rows of one entity, in the table's order.\<close>

definition entity_rows :: "entity \<Rightarrow> table \<Rightarrow> ((entity \<times> time) \<times> cells) list" where
  "entity_rows e df = filter (\<lambda>(k, r). fst k = e) (rows df)"

text \<open>A loop body that reads nothing of the table but the rows of the entity it is given.\<close>

definition reads_entity_only :: "(table \<Rightarrow> entity \<Rightarrow> 'a) \<Rightarrow> bool" where
  "reads_entity_only body =
     (\<forall>t t' e. loc_entity e t = loc_entity e t' \<longrightarrow> body t e = body t' e)"

text \<open>
  \<open>modified_copy out h df h' r\<close>: in the store \<open>h'\<close> the table at \<open>r\<close> is a new object,
  every object of \<open>h\<close> is what it was, and the new table has the row keys of the table at
  \<open>df\<close>, its columns and the column \<open>out\<close>, and the cells of every other column.
\<close>

definition modified_copy :: "string \<Rightarrow> heap \<Rightarrow> nat \<Rightarrow> heap \<Rightarrow> nat \<Rightarrow> bool" where
  "modified_copy out h df h' r =
     (r = length h \<and> length h' = Suc (length h) \<and> (\<forall>i<length h. h' ! i = h ! i)
      \<and> columns (h' ! r) = add_column out (columns (h ! df))
      \<and> index (h' ! r) = index (h ! df)
      \<and> (\<forall>c. c \<noteq> out \<longrightarrow> map (\<lambda>(k, r). cell r c) (rows (h' ! r))
                               = map (\<lambda>(k, r). cell r c) (rows (h ! df))))"

subsection \<open>The spectral features in the words of the specification\<close>

text \<open>
  The frequency axis with the bins at or below \<open>2/windowsize\<close> zeroed and the zeros then
  replaced by \<open>1/windowsize\<close>; the energy of segment \<open>j\<close>, the dot product of its column
  of magnitudes with that axis; the z-score with the population standard deviation; and
  the feature array of \<open>nseg\<close> segments, of the logarithm of the energy to base 10 for the
  raw-signal variant and of the energy itself for the gap-presence variant.
\<close>

definition fle :: "fl \<Rightarrow> fl \<Rightarrow> bool" where
  "fle x y = (flt x y \<or> feq x y)"

definition masked_axis :: "int \<Rightarrow> fl list \<Rightarrow> fl list" where
  "masked_axis ws freqs =
     map (\<lambda>f. let g = (if fle f (fdiv (Fin 2) (fl_of_int ws)) then Fin 0 else f)
              in if g = Fin 0 then fdiv (Fin 1) (fl_of_int ws) else g) freqs"

definition segment_energy :: "fl list list \<Rightarrow> fl list \<Rightarrow> nat \<Rightarrow> fl" where
  "segment_energy Sx axis j = fsum (map (\<lambda>i. fmul (Sx ! i ! j) (axis ! i)) [0 ..< length axis])"

definition population_std :: "fl list \<Rightarrow> fl" where
  "population_std xs =
     fsqrt (fdiv (fsum (map (\<lambda>x. fmul (fsub x (np_mean xs)) (fsub x (np_mean xs))) xs))
                 (fl_of_nat (length xs)))"

definition z_score :: "fl list \<Rightarrow> fl list" where
  "z_score xs = map (\<lambda>v. fdiv (fsub v (np_mean xs)) (population_std xs)) xs"

definition spectral_feature_spec :: "bool \<Rightarrow> int \<Rightarrow> fl list \<Rightarrow> fl list list \<Rightarrow> nat \<Rightarrow> fl list" where
  "spectral_feature_spec logscale ws freqs Sx nseg =
     z_score (map (\<lambda>j. let energy = segment_energy Sx (masked_axis ws freqs) j
                        in if logscale then flog10 energy else energy) [0 ..< nseg])"

subsection \<open>Example inputs\<close>

text \<open>
  What \<open>scipy.signal.spectrogram\<close> returns for segments of one sample without overlap
  (\<open>windowsize = 1\<close>): the window of length one is \<open>[1]\<close>, so there is one frequency bin,
  at 0, segment \<open>k\<close> is centred at \<open>k + 1/2\<close>, and its magnitude is the square of
  sample \<open>k\<close>. \<open>window_sums\<close> stands for a fitted outlier model: it scores a window by
  the sum of its samples.
\<close>

definition spectrogram_nperseg1 :: "fl list \<Rightarrow> int \<Rightarrow> int \<Rightarrow> error + (fl list \<times> fl list \<times> fl list list)" where
  "spectrogram_nperseg1 x nperseg noverlap =
     Inr ([Fin 0], map (\<lambda>k. Fin (real k + 1 / 2)) [0 ..< length x], [map (\<lambda>v. fmul v v) x])"

definition window_sums :: "nat \<Rightarrow> fl list list \<Rightarrow> error + fl list" where
  "window_sums n_clusters slices = Inr (map fsum slices)"

definition example_library :: library where
  "example_library = \<lparr>spectrogram = spectrogram_nperseg1, cblof_decision_scores = window_sums, interp1d_minval = 1\<rparr>"

definition seconds :: "int \<Rightarrow> time" where
  "seconds n = n * 1000000000"

definition nodata_w1 :: spectral where
  "nodata_w1 = NoDataAnomalyScore_init ''x'' 1 ''out''"

definition spectral_w1 :: spectral where
  "spectral_w1 = SpectralAnomalyScore_init ''x'' 1 ''out''"

definition kmeans_w1 :: kmeans where
  "kmeans_w1 = KMeansAnomalyScore_init ''x'' 1 ''out''"


text \<open>
  A table of two entities: \<open>A\<close> has one record, \<open>B\<close> has two, stored with the later
  timestamp first. Then the copy of it with the output column at 0, and the tables the
  three transformers return for it.
\<close>

definition two_entities :: table where
  "two_entities = \<lparr>columns = [''x''],
     rows = [((''A'', seconds 0), [(''x'', Fin 7)]),
             ((''B'', seconds 1), [(''x'', Fin 10)]),
             ((''B'', seconds 0), [(''x'', Fin 1)])]\<rparr>"

definition two_entities0 :: table where
  "two_entities0 = setitem_scalar ''out'' (Fin 0) two_entities"

definition slice_A :: slice where
  "slice_A = \<lparr>columns = [''x'', ''out''], rows = [(0, [(''x'', Fin 7), (''out'', Fin 0)])]\<rparr>"

definition nodata_result :: table where
  "nodata_result = \<lparr>columns = [''x'', ''out''],
      rows = [((''A'', 0), [(''x'', Fin 7), (''out'', Fin 0)]),
              ((''B'', 1000000000), [(''x'', Fin 10), (''out'', NaN)]),
              ((''B'', 0), [(''x'', Fin 1), (''out'', NaN)])]\<rparr>"

definition spectral_result :: table where
  "spectral_result = \<lparr>columns = [''x'', ''out''],
      rows = [((''A'', 0), [(''x'', Fin 7), (''out'', Fin 0)]),
              ((''B'', 1000000000), [(''x'', Fin 10), (''out'', Fin (-2))]),
              ((''B'', 0), [(''x'', Fin 1), (''out'', Fin 0)])]\<rparr>"

definition kmeans_result :: table where
  "kmeans_result = \<lparr>columns = [''x'', ''out''],
      rows = [((''A'', 0), [(''x'', Fin 7), (''out'', Fin 0)]),
              ((''B'', 1000000000), [(''x'', Fin 10), (''out'', Fin 1)]),
              ((''B'', 0), [(''x'', Fin 1), (''out'', Fin 4)])]\<rparr>"



definition slice_E :: slice where
  "slice_E = \<lparr>columns = [''x'', ''out''],
         rows = [(0, [(''x'', Fin 10), (''out'', Fin 0)]),
                 (1000000000, [(''x'', Fin 20), (''out'', Fin 0)]),
                 (2000000000, [(''x'', Fin 30), (''out'', Fin 0)]),
                 (12000000000, [(''x'', Fin 40), (''out'', Fin 0)])]\<rparr>"

definition grid_E :: slice where
  "grid_E = \<lparr>columns = [''x'', ''out''],
         rows = [(0, [(''x'', Fin 0), (''out'', Fin 0)]),
                 (4000000000, [(''x'', Fin 1), (''out'', Fin 1)]),
                 (8000000000, [(''x'', Fin 1), (''out'', Fin 1)]),
                 (12000000000, [(''x'', Fin 0), (''out'', Fin 0)])]\<rparr>"



definition nan_table :: table where
  "nan_table = \<lparr>columns = [''x''],
     rows = [((''E'', seconds 0), [(''x'', Fin 1)]),
             ((''E'', seconds 1), [(''x'', NaN)]),
             ((''E'', seconds 2), [(''x'', Fin 3)])]\<rparr>"

section \<open>Properties\<close>

subsection \<open>Auxiliary facts\<close>

lemma bind_Inr_iff: "bind m f = Inr y \<longleftrightarrow> (\<exists>x. m = Inr x \<and> f x = Inr y)"
  by (cases m) (simp_all add: bind_def)

lemma cell_update_same: "cell (AList.update c v r) c = v"
  by (simp add: cell_def update_conv')

lemma cell_update_other: "c' \<noteq> c \<Longrightarrow> cell (AList.update c v r) c' = cell r c'"
  by (simp add: cell_def update_conv')

lemma cell_map_columns: "c \<in> set cs \<Longrightarrow> cell (map (\<lambda>c. (c, f c)) cs) c = f c"
  by (induction cs) (auto simp: cell_def)




subsection \<open>Sampling Normalizer\<close>












subsection \<open>The write and the loop\<close>

lemma assign_rows_keys: "map fst (assign_rows e c vs rs) = map fst rs"
  by (induction e c vs rs rule: assign_rows.induct) auto

lemma assign_rows_other_entity:
  "e' \<noteq> e \<Longrightarrow> filter (\<lambda>(k, r). fst k = e') (assign_rows e c vs rs) = filter (\<lambda>(k, r). fst k = e') rs"
  by (induction e c vs rs rule: assign_rows.induct) auto

lemma assign_rows_other_column:
  "c' \<noteq> c \<Longrightarrow> map (\<lambda>(k, r). cell r c') (assign_rows e c vs rs) = map (\<lambda>(k, r). cell r c') rs"
  by (induction e c vs rs rule: assign_rows.induct) (auto simp: cell_update_other)

lemma assign_rows_written:
  "length vs = length (filter (\<lambda>(k, r). fst k = e) rs) \<Longrightarrow>
   map (\<lambda>(k, r). cell r c) (filter (\<lambda>(k, r). fst k = e) (assign_rows e c vs rs)) = vs"
  by (induction e c vs rs rule: assign_rows.induct) (auto simp: cell_update_same)

lemma loc_setitem_frame:
  assumes "loc_setitem e c vs t = Inr t'" and "c \<in> set (columns t)"
  shows "columns t' = columns t" and "index t' = index t"
    and "c' \<noteq> c \<Longrightarrow> map (\<lambda>(k, r). cell r c') (rows t') = map (\<lambda>(k, r). cell r c') (rows t)"
    and "e' \<noteq> e \<Longrightarrow> entity_rows e' t' = entity_rows e' t"
    and "map (\<lambda>(k, r). cell r c) (entity_rows e t') = vs"
proof -
  from assms(1) have len: "length vs = length (filter (\<lambda>(k, r). fst k = e) (rows t))"
    and t': "t' = \<lparr>columns = add_column c (columns t), rows = assign_rows e c vs (rows t)\<rparr>"
    by (auto simp: loc_setitem_def split: if_splits)
  show "columns t' = columns t" using assms(2) by (simp add: t' add_column_def)
  show "index t' = index t" by (simp add: t' index_def assign_rows_keys)
  show "c' \<noteq> c \<Longrightarrow> map (\<lambda>(k, r). cell r c') (rows t') = map (\<lambda>(k, r). cell r c') (rows t)"
    by (simp add: t' assign_rows_other_column)
  show "e' \<noteq> e \<Longrightarrow> entity_rows e' t' = entity_rows e' t"
    by (simp add: t' entity_rows_def assign_rows_other_entity)
  show "map (\<lambda>(k, r). cell r c) (entity_rows e t') = vs"
    using len by (simp add: t' entity_rows_def assign_rows_written)
qed

lemma for_entities_Cons_Inr:
  assumes "for_entities body out r h (e # es) = Inr h'"
  shows "(body (h ! r) e = Inr None \<and> for_entities body out r h es = Inr h')
       \<or> (\<exists>z t. body (h ! r) e = Inr (Some z) \<and> loc_setitem e out z (h ! r) = Inr t
               \<and> for_entities body out r (h[r := t]) es = Inr h')"
proof -
  from assms obtain res where res: "body (h ! r) e = Inr res"
    and rest: "(case res of None \<Rightarrow> for_entities body out r h es
                | Some z \<Rightarrow> bind (loc_setitem e out z (h ! r))
                     (\<lambda>t. for_entities body out r (h[r := t]) es)) = Inr h'"
    unfolding for_entities.simps bind_Inr_iff by blast
  show ?thesis
  proof (cases res)
    case None
    then show ?thesis using res rest by simp
  next
    case (Some z)
    with rest have "bind (loc_setitem e out z (h ! r))
                     (\<lambda>t. for_entities body out r (h[r := t]) es) = Inr h'" by simp
    then obtain t where "loc_setitem e out z (h ! r) = Inr t"
      and "for_entities body out r (h[r := t]) es = Inr h'"
      unfolding bind_Inr_iff by blast
    then show ?thesis using res Some by blast
  qed
qed

lemma for_entities_frame:
  assumes "for_entities body out r h es = Inr h'" and "r < length h"
    and "out \<in> set (columns (h ! r))"
  shows "length h' = length h \<and> (\<forall>i. i \<noteq> r \<longrightarrow> h' ! i = h ! i)
       \<and> columns (h' ! r) = columns (h ! r) \<and> index (h' ! r) = index (h ! r)
       \<and> (\<forall>c. c \<noteq> out \<longrightarrow> map (\<lambda>(k, r). cell r c) (rows (h' ! r))
                                 = map (\<lambda>(k, r). cell r c) (rows (h ! r)))"
  using assms
proof (induction es arbitrary: h)
  case Nil
  then show ?case by simp
next
  case (Cons e es)
  from for_entities_Cons_Inr[OF Cons.prems(1)] show ?case
  proof (elim disjE conjE exE)
    assume "for_entities body out r h es = Inr h'"
    from Cons.IH[OF this Cons.prems(2,3)] show ?thesis .
  next
    fix z t
    assume w2: "loc_setitem e out z (h ! r) = Inr t"
      and w3: "for_entities body out r (h[r := t]) es = Inr h'"
    note fr = loc_setitem_frame[OF w2 Cons.prems(3)]
    have tr: "h[r := t] ! r = t" using Cons.prems(2) by simp
    have r': "r < length (h[r := t])" using Cons.prems(2) by simp
    have c': "out \<in> set (columns (h[r := t] ! r))"
      using Cons.prems(3) fr(1) tr by simp
    note ih = Cons.IH[OF w3 r' c', unfolded tr]
    have 1: "length h' = length h" using ih by simp
    have 2: "\<forall>i. i \<noteq> r \<longrightarrow> h' ! i = h ! i" using ih by simp
    have 3: "columns (h' ! r) = columns (h ! r)" using ih fr(1) by simp
    have 4: "index (h' ! r) = index (h ! r)" using ih fr(2) by simp
    have 5: "\<forall>c. c \<noteq> out \<longrightarrow> map (\<lambda>(k, r). cell r c) (rows (h' ! r))
                                 = map (\<lambda>(k, r). cell r c) (rows (h ! r))"
    proof (intro allI impI)
      fix c assume c: "c \<noteq> out"
      have "map (\<lambda>(k, r). cell r c) (rows (h' ! r)) = map (\<lambda>(k, r). cell r c) (rows t)"
        using ih c by blast
      also have "\<dots> = map (\<lambda>(k, r). cell r c) (rows (h ! r))" using fr(3)[OF c] .
      finally show "map (\<lambda>(k, r). cell r c) (rows (h' ! r)) = map (\<lambda>(k, r). cell r c) (rows (h ! r))" .
    qed
    from 1 2 3 4 5 show ?thesis by blast
  qed
qed

lemma loc_entity_cong:
  "columns t' = columns t \<Longrightarrow> entity_rows e t' = entity_rows e t \<Longrightarrow> loc_entity e t' = loc_entity e t"
  by (simp add: loc_entity_def entity_rows_def Let_def)

lemma for_entities_unscored:
  assumes "for_entities body out r h es = Inr h'" and "r < length h"
    and "out \<in> set (columns (h ! r))" and "distinct es" and "reads_entity_only body"
    and "e \<notin> set es \<or> body (h ! r) e = Inr None"
  shows "entity_rows e (h' ! r) = entity_rows e (h ! r)"
  using assms(1,2,3,4,6)
proof (induction es arbitrary: h)
  case Nil
  then show ?case by simp
next
  case (Cons e1 es)
  from Cons.prems(4) have d: "distinct es" "e1 \<notin> set es" by auto
  from for_entities_Cons_Inr[OF Cons.prems(1)] show ?case
  proof (elim disjE conjE exE)
    assume loop: "for_entities body out r h es = Inr h'"
    have "e \<notin> set es \<or> body (h ! r) e = Inr None"
      using Cons.prems(5) d by auto
    from Cons.IH[OF loop Cons.prems(2,3) d(1) this] show ?thesis .
  next
    fix z t
    assume res: "body (h ! r) e1 = Inr (Some z)"
      and t: "loc_setitem e1 out z (h ! r) = Inr t"
      and loop: "for_entities body out r (h[r := t]) es = Inr h'"
    note fr = loc_setitem_frame[OF t Cons.prems(3)]
    have ne: "e \<noteq> e1" using Cons.prems(5) res by auto
    have r': "r < length (h[r := t])" using Cons.prems(2) by simp
    have tr: "h[r := t] ! r = t" using Cons.prems(2) by simp
    have c': "out \<in> set (columns (h[r := t] ! r))"
      using Cons.prems(3) fr(1) tr by simp
    have same: "entity_rows e t = entity_rows e (h ! r)" using fr(4)[OF ne] .
    have "loc_entity e t = loc_entity e (h ! r)"
      using loc_entity_cong[OF fr(1) same] .
    then have "body t e = body (h ! r) e"
      using assms(5) unfolding reads_entity_only_def by blast
    then have "e \<notin> set es \<or> body (h[r := t] ! r) e = Inr None"
      using Cons.prems(5) ne tr by auto
    from Cons.IH[OF loop r' c' d(1) this] show ?thesis using tr same by simp
  qed
qed

lemma score_entity_reads_entity_only: "reads_entity_only (score_entity signal stretched self)"
  unfolding reads_entity_only_def
proof (intro allI impI)
  fix t t' :: table and e
  assume a: "loc_entity e t = loc_entity e t'"
  show "score_entity signal stretched self t e = score_entity signal stretched self t' e"
    unfolding score_entity_def a ..
qed

lemma execute_loop_heap:
  "df < length h \<Longrightarrow> (h @ [h ! df]) ! df = h ! df"
  "(h @ [x]) ! length h = x"
  "(h @ [x])[length h := y] = h @ [y]"
  by (simp_all add: nth_append)

lemma NoDataAnomalyScore_execute_Inr:
  assumes "NoDataAnomalyScore_execute lib s h df = Inr (h', r)" and "df < length h"
  shows "r = length h"
    and "for_entities (NoData_entity lib s) (output_item s) (length h)
           (h @ [setitem_scalar (output_item s) (Fin 0) (h ! df)]) (unique_entities (h ! df)) = Inr h'"
  using assms
  by (auto simp: NoDataAnomalyScore_execute_def copy_def Let_def execute_loop_heap bind_Inr_iff)

lemma SpectralAnomalyScore_execute_Inr:
  assumes "SpectralAnomalyScore_execute lib s h df = Inr (h', r)" and "df < length h"
  shows "r = length h"
    and "for_entities (Spectral_entity lib s) (output_item s) (length h)
           (h @ [setitem_scalar (output_item s) (Fin 0) (h ! df)]) (unique_entities (h ! df)) = Inr h'"
  using assms
  by (auto simp: SpectralAnomalyScore_execute_def copy_def Let_def execute_loop_heap bind_Inr_iff)

lemma KMeansAnomalyScore_execute_Inr:
  assumes "KMeansAnomalyScore_execute lib k h df = Inr (h', r)" and "df < length h"
  shows "r = length h"
    and "for_entities (KMeans_entity lib k) (output_item k) (length h)
           (h @ [setitem_scalar (output_item k) (Fin 0) (h ! df)]) (unique_entities (h ! df)) = Inr h'"
  using assms
  by (auto simp: KMeansAnomalyScore_execute_def copy_def Let_def execute_loop_heap bind_Inr_iff)

lemma setitem_scalar_frame:
  "columns (setitem_scalar c v t) = add_column c (columns t)"
  "index (setitem_scalar c v t) = index t"
  "c \<in> set (columns (setitem_scalar c v t))"
  "c' \<noteq> c \<Longrightarrow> map (\<lambda>(k, r). cell r c') (rows (setitem_scalar c v t)) = map (\<lambda>(k, r). cell r c') (rows t)"
  "row \<in> set (rows (setitem_scalar c v t)) \<Longrightarrow> cell (snd row) c = v"
  by (auto simp: setitem_scalar_def add_column_def index_def comp_def case_prod_unfold
      cell_update_other cell_update_same)

lemma distinct_unique_entities: "distinct (unique_entities t)"
  by (simp add: unique_entities_def)

lemma driver_frame:
  assumes "for_entities body out (length h) (h @ [setitem_scalar out (Fin 0) t]) es = Inr h'"
  shows "length h' = Suc (length h)" and "\<forall>i<length h. h' ! i = h ! i"
    and "columns (h' ! length h) = add_column out (columns t)"
    and "index (h' ! length h) = index t"
    and "\<forall>c. c \<noteq> out \<longrightarrow> map (\<lambda>(k, r). cell r c) (rows (h' ! length h))
                             = map (\<lambda>(k, r). cell r c) (rows t)"
proof -
  let ?h0 = "h @ [setitem_scalar out (Fin 0) t]"
  have r: "length h < length ?h0" by simp
  have c: "out \<in> set (columns (?h0 ! length h))" by (simp add: setitem_scalar_frame(3))
  note fr = for_entities_frame[OF assms r c]
  show "length h' = Suc (length h)" using fr by simp
  show "\<forall>i<length h. h' ! i = h ! i" using fr by (simp add: nth_append)
  show "columns (h' ! length h) = add_column out (columns t)"
    using fr by (simp add: setitem_scalar_frame)
  show "index (h' ! length h) = index t" using fr by (simp add: setitem_scalar_frame)
  show "\<forall>c. c \<noteq> out \<longrightarrow> map (\<lambda>(k, r). cell r c) (rows (h' ! length h))
                             = map (\<lambda>(k, r). cell r c) (rows t)"
    using fr by (simp add: setitem_scalar_frame)
qed

lemma driver_unscored_rows:
  assumes loop: "for_entities body out (length h) (h @ [setitem_scalar out (Fin 0) t]) (unique_entities t) = Inr h'"
    and ro: "reads_entity_only body"
    and none: "body (setitem_scalar out (Fin 0) t) e = Inr None"
    and row: "row \<in> set (rows (h' ! length h))" and e: "fst (fst row) = e"
  shows "cell (snd row) out = Fin 0"
proof -
  let ?t0 = "setitem_scalar out (Fin 0) t"
  let ?h0 = "h @ [?t0]"
  have r: "length h < length ?h0" by simp
  have c: "out \<in> set (columns (?h0 ! length h))" by (simp add: setitem_scalar_frame(3))
  have "entity_rows e (h' ! length h) = entity_rows e (?h0 ! length h)"
    using for_entities_unscored[OF loop r c distinct_unique_entities ro] none by simp
  then have eq: "entity_rows e (h' ! length h) = entity_rows e ?t0" by simp
  from row e have "row \<in> set (entity_rows e (h' ! length h))"
    by (auto simp: entity_rows_def)
  then have "row \<in> set (rows ?t0)" unfolding eq by (auto simp: entity_rows_def)
  then show ?thesis by (rule setitem_scalar_frame(5))
qed

lemma driver_short_entity:
  assumes sel: "loc_entity e (setitem_scalar (output_item self) (Fin 0) t) = Inr sel"
    and sig: "signal sel = Inr (dfe, dfe_orig, mindelta, temperature)"
    and short: "int (length temperature) \<le> windowsize self"
  shows "score_entity signal stretched self (setitem_scalar (output_item self) (Fin 0) t) e = Inr None"
  using sel sig short by (simp add: score_entity_def bind_def)

lemma driver_modified_copy:
  assumes "for_entities body out (length h) (h @ [setitem_scalar out (Fin 0) (h ! df)]) es = Inr h'"
  shows "modified_copy out h df h' (length h)"
  unfolding modified_copy_def using driver_frame[OF assms] by blast

subsection \<open>Runs on the example inputs\<close>

lemma score_entity_run:
  assumes "loc_entity e t = Inr sel"
    and "bind (signal sel) (\<lambda>(dfe, dfe_orig, md, temperature). Inr temperature) = Inr temp"
    and "int (length temp) > windowsize self"
    and "stretched temp = Inr scoreI"
    and "bind (signal sel) (\<lambda>(dfe, dfe_orig, md, temperature).
           bind (setitem_array (output_item self) scoreI dfe)
             (\<lambda>dfe. realign self dfe_orig dfe md)) = Inr z"
  shows "score_entity signal stretched self t e = Inr (Some z)"
proof -
  from assms(2) obtain dfe dfe_orig md where "signal sel = Inr (dfe, dfe_orig, md, temp)"
    by (auto simp: bind_Inr_iff)
  then show ?thesis using assms by (auto simp: score_entity_def bind_def split: sum.splits)
qed

lemma score_entity_skip:
  assumes "loc_entity e t = Inr sel"
    and "bind (signal sel) (\<lambda>(dfe, dfe_orig, md, temperature). Inr temperature) = Inr temp"
    and "int (length temp) \<le> windowsize self"
  shows "score_entity signal stretched self t e = Inr None"
proof -
  from assms(2) obtain dfe dfe_orig md where "signal sel = Inr (dfe, dfe_orig, md, temp)"
    by (auto simp: bind_Inr_iff)
  then show ?thesis using assms by (simp add: score_entity_def bind_def)
qed

lemma log100: "log 10 100 = 2"
proof -
  have "(100::real) = 10 ^ 2" by simp
  then have "log 10 100 = log 10 (10 ^ 2)" by simp
  also have "\<dots> = 2 * log 10 10" by (subst log_nat_power) simp_all
  finally show ?thesis by simp
qed

lemma sqrt_quarter: "sqrt (1 / 4) = 1 / 2"
  by (simp add: real_sqrt_divide)

lemma out_items: "output_item spectral_w1 = ''out''" "output_item nodata_w1 = ''out''" "output_item kmeans_w1 = ''out''"
  by (simp_all add: spectral_w1_def nodata_w1_def kmeans_w1_def SpectralAnomalyScore_init_def
      NoDataAnomalyScore_init_def KMeansAnomalyScore_init_def Let_def)

lemma windows1: "windowsize nodata_w1 = 1" "windowsize spectral_w1 = 1" "windowsize kmeans_w1 = 1"
  by (simp_all add: spectral_w1_def nodata_w1_def kmeans_w1_def SpectralAnomalyScore_init_def
      NoDataAnomalyScore_init_def KMeansAnomalyScore_init_def Let_def)

lemma sel_A: "loc_entity ''A'' two_entities0 =
   Inr \<lparr>columns = [''x'', ''out''], rows = [((''A'', 0), [(''x'', Fin 7), (''out'', Fin 0)])]\<rparr>"
  by code_simp

lemma sel_B: "loc_entity ''B'' two_entities0 =
   Inr \<lparr>columns = [''x'', ''out''],
        rows = [((''B'', 1000000000), [(''x'', Fin 10), (''out'', Fin 0)]),
                ((''B'', 0), [(''x'', Fin 1), (''out'', Fin 0)])]\<rparr>"
  by code_simp

lemma entities_two: "unique_entities two_entities = [''A'', ''B'']"
  by code_simp

lemma signals_A:
  "NoData_signal nodata_w1 \<lparr>columns = [''x'', ''out''], rows = [((''A'', 0), [(''x'', Fin 7), (''out'', Fin 0)])]\<rparr>
     = Inr (\<lparr>columns = [''x'', ''out''], rows = [(0, [(''x'', Fin 0), (''out'', Fin 0)])]\<rparr>,
            slice_A, 5000000000, [Fin 0])"
  "interpolated_signal spectral_w1 \<lparr>columns = [''x'', ''out''], rows = [((''A'', 0), [(''x'', Fin 7), (''out'', Fin 0)])]\<rparr>
     = Inr (slice_A, slice_A, 5000000000, [Fin 7])"
  "interpolated_signal kmeans_w1 \<lparr>columns = [''x'', ''out''], rows = [((''A'', 0), [(''x'', Fin 7), (''out'', Fin 0)])]\<rparr>
     = Inr (slice_A, slice_A, 5000000000, [Fin 7])"
  by code_simp+

lemma spectral_w1_features:
  "Spectral_features example_library spectral_w1 [Fin 1, Fin 10] = Inr ([Fin (1/2), Fin (3/2)], [Fin (-1), Fin 1])"
  by (simp add: Spectral_features_def example_library_def spectrogram_nperseg1_def spectral_w1_def
      SpectralAnomalyScore_init_def bind_def np_dot_T_def mask_freqs_def fgt_def feq_def fl_of_int_def
      fl_of_nat_def zscore_def np_mean_def np_std0_def fsum_def fsub_def log100)

lemma stretch_two:
  "stretch example_library [Fin (1/2), Fin (3/2)] [Fin (-1), Fin 1] (Suc (Suc 0)) = Inr [Fin (-2), Fin 0]"
  by code_simp

lemma spectral_w1_stretched: "Spectral_stretched example_library spectral_w1 [Fin 1, Fin 10] = Inr [Fin (-2), Fin 0]"
  by (simp add: Spectral_stretched_def spectral_w1_features bind_def np_max_def stretch_two)

lemma spectral_w1_A: "Spectral_entity example_library spectral_w1 two_entities0 ''A'' = Inr None"
  unfolding Spectral_entity_def
  by (rule score_entity_skip[OF sel_A, where temp = "[Fin 7]"]; code_simp)

lemma spectral_w1_B: "Spectral_entity example_library spectral_w1 two_entities0 ''B'' = Inr (Some [Fin (-2), Fin 0])"
  unfolding Spectral_entity_def
  by (rule score_entity_run[where temp = "[Fin 1, Fin 10]" and scoreI = "[Fin (-2), Fin 0]"],
      rule sel_B, code_simp, code_simp, rule spectral_w1_stretched, code_simp)

lemma spectral_w1_write: "loc_setitem ''B'' ''out'' [Fin (-2), Fin 0] two_entities0 = Inr spectral_result"
  by code_simp

lemma spectral_w1_run:
  "SpectralAnomalyScore_execute example_library spectral_w1 [two_entities] 0 = Inr ([two_entities, spectral_result], 1)"
  by (simp add: SpectralAnomalyScore_execute_def copy_def entities_two out_items
      two_entities0_def[symmetric] spectral_w1_A spectral_w1_B spectral_w1_write bind_def)

lemma kmeans_w1_run:
  "KMeansAnomalyScore_execute example_library kmeans_w1 [two_entities] 0 = Inr ([two_entities, kmeans_result], 1)"
  by code_simp

lemma kmeans_w1_stretched: "KMeans_stretched example_library kmeans_w1 [Fin 1, Fin 10] = Inr [Fin 1, Fin 4]"
  by code_simp


lemma nodata_w1_features:
  "NoData_features example_library nodata_w1 [Fin 0, Fin 0] = Inr ([Fin (1/2), Fin (3/2)], [NaN, NaN])"
  by (simp add: NoData_features_def example_library_def spectrogram_nperseg1_def nodata_w1_def
      NoDataAnomalyScore_init_def bind_def np_dot_T_def mask_freqs_def fgt_def feq_def fl_of_int_def
      fl_of_nat_def zscore_def np_mean_def np_std0_def fsum_def fsub_def inf_of_sign_def)

lemma stretch_nan:
  "stretch example_library [Fin (1/2), Fin (3/2)] [NaN, NaN] (Suc (Suc 0)) = Inr [NaN, NaN]"
  by code_simp

lemma nodata_w1_stretched: "NoData_stretched example_library nodata_w1 [Fin 0, Fin 0] = Inr [NaN, NaN]"
  by (simp add: NoData_stretched_def nodata_w1_features bind_def np_max_def stretch_nan)

lemma nodata_w1_A: "NoData_entity example_library nodata_w1 two_entities0 ''A'' = Inr None"
  unfolding NoData_entity_def
  by (rule score_entity_skip[OF sel_A, where temp = "[Fin 0]"]; code_simp)

lemma nodata_w1_B: "NoData_entity example_library nodata_w1 two_entities0 ''B'' = Inr (Some [NaN, NaN])"
  unfolding NoData_entity_def
  by (rule score_entity_run[where temp = "[Fin 0, Fin 0]" and scoreI = "[NaN, NaN]"],
      rule sel_B, code_simp, code_simp, rule nodata_w1_stretched, code_simp)

lemma nodata_w1_write: "loc_setitem ''B'' ''out'' [NaN, NaN] two_entities0 = Inr nodata_result"
  by code_simp

lemma nodata_w1_run:
  "NoDataAnomalyScore_execute example_library nodata_w1 [two_entities] 0 = Inr ([two_entities, nodata_result], 1)"
  by (simp add: NoDataAnomalyScore_execute_def copy_def entities_two out_items
      two_entities0_def[symmetric] nodata_w1_A nodata_w1_B nodata_w1_write bind_def)



lemma gap_features:
  "NoData_features example_library nodata_w1 [Fin 0, Fin 1, Fin 1, Fin 0]
   = Inr ([Fin (1/2), Fin (3/2), Fin (5/2), Fin (7/2)], [Fin (-1), Fin 1, Fin 1, Fin (-1)])"
  by (simp add: NoData_features_def example_library_def spectrogram_nperseg1_def nodata_w1_def
      NoDataAnomalyScore_init_def bind_def np_dot_T_def mask_freqs_def fgt_def feq_def fl_of_int_def
      fl_of_nat_def zscore_def np_mean_def np_std0_def fsum_def fsub_def inf_of_sign_def
      sqrt_quarter upt_rec)

lemma stretch_gap:
  "stretch example_library [Fin (1/2), Fin (3/2), Fin (5/2), Fin (7/2)] [Fin (-1), Fin 1, Fin 1, Fin (-1)]
     (Suc (Suc (Suc (Suc 0)))) = Inr [Fin (-2), Fin 0, Fin 1, Fin 0]"
  by code_simp

lemma gap_stretched:
  "NoData_stretched example_library nodata_w1 [Fin 0, Fin 1, Fin 1, Fin 0] = Inr [Fin (-2), Fin 0, Fin 1, Fin 0]"
  by (simp add: NoData_stretched_def gap_features bind_def np_max_def stretch_gap)






lemma signal_E:
  "NoData_signal nodata_w1 \<lparr>columns = [''x'', ''out''],
        rows = [((''E'', 0), [(''x'', Fin 10), (''out'', Fin 0)]),
                ((''E'', 1000000000), [(''x'', Fin 20), (''out'', Fin 0)]),
                ((''E'', 2000000000), [(''x'', Fin 30), (''out'', Fin 0)]),
                ((''E'', 12000000000), [(''x'', Fin 40), (''out'', Fin 0)])]\<rparr>
   = Inr (grid_E, slice_E, seconds 1, [Fin 0, Fin 1, Fin 1, Fin 0])"
  by code_simp

lemma spectrogram_example:
  "spectrogram example_library [Fin 1, Fin 10] (windowsize spectral_w1) (windowoverlap spectral_w1)
     = Inr ([Fin 0], [Fin (1/2), Fin (3/2)], [[Fin 1, Fin 100]])"
  by code_simp

subsection \<open>Entities with too short a signal\<close>

text \<open>
  C1. Let an \<open>execute\<close> of one of the three transformers return, and let the signal array
  that the transformer extracts for an entity of the table be no longer than \<open>windowsize\<close>.
  Then the loop body computes no score for the entity, and the output column of the
  returned table is 0 in every row of the entity.
\<close>

theorem short_signal_keeps_default:
  assumes "df < length h"
    and "loc_entity e (setitem_scalar out (Fin 0) (h ! df)) = Inr sel"
  shows "(output_item sN = out \<and> NoDataAnomalyScore_execute lib sN h df = Inr (hN, rN)
          \<and> NoData_signal sN sel = Inr (dfeN, origN, mdN, tempN)
          \<and> int (length tempN) \<le> windowsize sN
          \<longrightarrow> NoData_entity lib sN (setitem_scalar out (Fin 0) (h ! df)) e = Inr None
            \<and> (\<forall>row\<in>set (rows (hN ! rN)). fst (fst row) = e \<longrightarrow> cell (snd row) out = Fin 0))
       \<and> (output_item sS = out \<and> SpectralAnomalyScore_execute lib sS h df = Inr (hS, rS)
          \<and> interpolated_signal sS sel = Inr (dfeS, origS, mdS, tempS)
          \<and> int (length tempS) \<le> windowsize sS
          \<longrightarrow> Spectral_entity lib sS (setitem_scalar out (Fin 0) (h ! df)) e = Inr None
            \<and> (\<forall>row\<in>set (rows (hS ! rS)). fst (fst row) = e \<longrightarrow> cell (snd row) out = Fin 0))
       \<and> (output_item k = out \<and> KMeansAnomalyScore_execute lib k h df = Inr (hK, rK)
          \<and> interpolated_signal k sel = Inr (dfeK, origK, mdK, tempK)
          \<and> int (length tempK) \<le> windowsize k
          \<longrightarrow> KMeans_entity lib k (setitem_scalar out (Fin 0) (h ! df)) e = Inr None
            \<and> (\<forall>row\<in>set (rows (hK ! rK)). fst (fst row) = e \<longrightarrow> cell (snd row) out = Fin 0))"
proof (intro conjI impI; elim conjE)
  assume o: "output_item sN = out" and a: "NoDataAnomalyScore_execute lib sN h df = Inr (hN, rN)"
    and sg: "NoData_signal sN sel = Inr (dfeN, origN, mdN, tempN)"
    and sh: "int (length tempN) \<le> windowsize sN"
  note run = NoDataAnomalyScore_execute_Inr[OF a assms(1), unfolded NoData_entity_def]
  have none: "score_entity (NoData_signal sN) (NoData_stretched lib sN) sN
                (setitem_scalar (output_item sN) (Fin 0) (h ! df)) e = Inr None"
    by (rule driver_short_entity[where signal = "NoData_signal sN", OF assms(2)[folded o] sg sh])
  show "NoData_entity lib sN (setitem_scalar out (Fin 0) (h ! df)) e = Inr None"
    using none o by (simp add: NoData_entity_def)
  show "\<forall>row\<in>set (rows (hN ! rN)). fst (fst row) = e \<longrightarrow> cell (snd row) out = Fin 0"
    using driver_unscored_rows[OF run(2) score_entity_reads_entity_only none] o run(1) by simp
next
  assume o: "output_item sS = out" and a: "SpectralAnomalyScore_execute lib sS h df = Inr (hS, rS)"
    and sg: "interpolated_signal sS sel = Inr (dfeS, origS, mdS, tempS)"
    and sh: "int (length tempS) \<le> windowsize sS"
  note run = SpectralAnomalyScore_execute_Inr[OF a assms(1), unfolded Spectral_entity_def]
  have none: "score_entity (interpolated_signal sS) (Spectral_stretched lib sS) sS
                (setitem_scalar (output_item sS) (Fin 0) (h ! df)) e = Inr None"
    by (rule driver_short_entity[where signal = "interpolated_signal sS", OF assms(2)[folded o] sg sh])
  show "Spectral_entity lib sS (setitem_scalar out (Fin 0) (h ! df)) e = Inr None"
    using none o by (simp add: Spectral_entity_def)
  show "\<forall>row\<in>set (rows (hS ! rS)). fst (fst row) = e \<longrightarrow> cell (snd row) out = Fin 0"
    using driver_unscored_rows[OF run(2) score_entity_reads_entity_only none] o run(1) by simp
next
  assume o: "output_item k = out" and a: "KMeansAnomalyScore_execute lib k h df = Inr (hK, rK)"
    and sg: "interpolated_signal k sel = Inr (dfeK, origK, mdK, tempK)"
    and sh: "int (length tempK) \<le> windowsize k"
  note run = KMeansAnomalyScore_execute_Inr[OF a assms(1), unfolded KMeans_entity_def]
  have none: "score_entity (interpolated_signal k) (KMeans_stretched lib k) k
                (setitem_scalar (output_item k) (Fin 0) (h ! df)) e = Inr None"
    by (rule driver_short_entity[where signal = "interpolated_signal k", OF assms(2)[folded o] sg sh])
  show "KMeans_entity lib k (setitem_scalar out (Fin 0) (h ! df)) e = Inr None"
    using none o by (simp add: KMeans_entity_def)
  show "\<forall>row\<in>set (rows (hK ! rK)). fst (fst row) = e \<longrightarrow> cell (snd row) out = Fin 0"
    using driver_unscored_rows[OF run(2) score_entity_reads_entity_only none] o run(1) by simp
qed

text \<open>
  The hypotheses of C1 hold for entity \<open>A\<close> of the example table, under each of the three
  transformers with \<open>windowsize = 1\<close>, while entity \<open>B\<close> is scored.
\<close>

theorem short_signal_keeps_default_witness:
  "0 < length [two_entities]
   \<and> loc_entity ''A'' (setitem_scalar ''out'' (Fin 0) ([two_entities] ! 0))
       = Inr \<lparr>columns = [''x'', ''out''], rows = [((''A'', 0), [(''x'', Fin 7), (''out'', Fin 0)])]\<rparr>
   \<and> NoDataAnomalyScore_execute example_library nodata_w1 [two_entities] 0 = Inr ([two_entities, nodata_result], 1)
   \<and> NoData_entity example_library nodata_w1 (setitem_scalar ''out'' (Fin 0) ([two_entities] ! 0)) ''A'' = Inr None
   \<and> list_all (\<lambda>row. fst (fst row) \<noteq> ''A'' \<or> cell (snd row) ''out'' = Fin 0) (rows nodata_result)
   \<and> SpectralAnomalyScore_execute example_library spectral_w1 [two_entities] 0 = Inr ([two_entities, spectral_result], 1)
   \<and> Spectral_entity example_library spectral_w1 (setitem_scalar ''out'' (Fin 0) ([two_entities] ! 0)) ''A'' = Inr None
   \<and> list_all (\<lambda>row. fst (fst row) \<noteq> ''A'' \<or> cell (snd row) ''out'' = Fin 0) (rows spectral_result)
   \<and> KMeansAnomalyScore_execute example_library kmeans_w1 [two_entities] 0 = Inr ([two_entities, kmeans_result], 1)
   \<and> KMeans_entity example_library kmeans_w1 (setitem_scalar ''out'' (Fin 0) ([two_entities] ! 0)) ''A'' = Inr None
   \<and> list_all (\<lambda>row. fst (fst row) \<noteq> ''A'' \<or> cell (snd row) ''out'' = Fin 0) (rows kmeans_result)"
proof -
  have d: "0 < length [two_entities]" by simp
  have sel: "loc_entity ''A'' (setitem_scalar ''out'' (Fin 0) ([two_entities] ! 0))
       = Inr \<lparr>columns = [''x'', ''out''], rows = [((''A'', 0), [(''x'', Fin 7), (''out'', Fin 0)])]\<rparr>"
    using sel_A by (simp add: two_entities0_def)
  let ?dfeA = "\<lparr>columns = [''x'', ''out''], rows = [(0, [(''x'', Fin 0), (''out'', Fin 0)])]\<rparr> :: slice"
  note t = short_signal_keeps_default[OF d sel, where lib = example_library
      and sN = nodata_w1 and hN = "[two_entities, nodata_result]" and rN = 1
      and dfeN = ?dfeA and origN = slice_A and mdN = 5000000000 and tempN = "[Fin 0]"
      and sS = spectral_w1 and hS = "[two_entities, spectral_result]" and rS = 1
      and dfeS = slice_A and origS = slice_A and mdS = 5000000000 and tempS = "[Fin 7]"
      and k = kmeans_w1 and hK = "[two_entities, kmeans_result]" and rK = 1
      and dfeK = slice_A and origK = slice_A and mdK = 5000000000 and tempK = "[Fin 7]"]
  have n: "NoData_entity example_library nodata_w1 (setitem_scalar ''out'' (Fin 0) ([two_entities] ! 0)) ''A'' = Inr None
     \<and> (\<forall>row\<in>set (rows ([two_entities, nodata_result] ! 1)). fst (fst row) = ''A'' \<longrightarrow> cell (snd row) ''out'' = Fin 0)"
    by (rule mp[OF conjunct1[OF t]])
       (intro conjI out_items(2) nodata_w1_run signals_A(1), simp add: windows1)
  have s: "Spectral_entity example_library spectral_w1 (setitem_scalar ''out'' (Fin 0) ([two_entities] ! 0)) ''A'' = Inr None
     \<and> (\<forall>row\<in>set (rows ([two_entities, spectral_result] ! 1)). fst (fst row) = ''A'' \<longrightarrow> cell (snd row) ''out'' = Fin 0)"
    by (rule mp[OF conjunct1[OF conjunct2[OF t]]])
       (intro conjI out_items(1) spectral_w1_run signals_A(2), simp add: windows1)
  have k: "KMeans_entity example_library kmeans_w1 (setitem_scalar ''out'' (Fin 0) ([two_entities] ! 0)) ''A'' = Inr None
     \<and> (\<forall>row\<in>set (rows ([two_entities, kmeans_result] ! 1)). fst (fst row) = ''A'' \<longrightarrow> cell (snd row) ''out'' = Fin 0)"
    by (rule mp[OF conjunct2[OF conjunct2[OF t]]])
       (intro conjI out_items(3) kmeans_w1_run signals_A(3), simp add: windows1)
  show ?thesis
    using d sel nodata_w1_run spectral_w1_run kmeans_w1_run n s k
    by (simp add: list_all_iff)
qed

subsection \<open>Row order of the write\<close>

text \<open>
  When the rows of an entity are stored in ascending order of time, its sorted slice has
  the timestamps in the stored order, so that position \<open>i\<close> of the realigned scores is
  the score of the entity's row \<open>i\<close>.
\<close>

lemma entity_slice_sorted_rows:
  assumes "sorted (map (\<lambda>(k, r). snd k) (rows sel))"
  shows "index (snd (entity_slices sel)) = map (\<lambda>(k, r). snd k) (rows sel)"
proof -
  let ?rs = "map (\<lambda>(k, r). (snd k, r)) (rows sel)"
  have eq: "map fst ?rs = map (\<lambda>(k, r). snd k) (rows sel)"
    by (induction "rows sel") (auto simp: case_prod_unfold)
  have "sorted (map fst ?rs)" unfolding eq by (rule assms)
  then have "sort_key fst ?rs = ?rs" by (rule sort_key_id_if_sorted)
  then have "index (snd (entity_slices sel)) = map fst ?rs"
    by (simp add: entity_slices_def Let_def sort_index_def reset_index_level0_def index_def)
  then show ?thesis unfolding eq .
qed

text \<open>
  C2, at the example table, whose rows of entity \<open>B\<close> are stored with the later timestamp
  first. The raw-signal scorer with \<open>windowsize = 1\<close> returns, and it keeps every row and
  row key. The sorted slice of \<open>B\<close> has the timestamps 0 s and 1 s, and the realigned scores
  are -2 for 0 s and 0 for 1 s, in that order. The write puts the array into the rows of
  \<open>B\<close> in the table's order: the row of 1 s gets -2 and the row of 0 s gets 0, so neither
  score is in the row it belongs to.
\<close>

theorem scores_written_in_table_order:
  "SpectralAnomalyScore_execute example_library spectral_w1 [two_entities] 0
     = Inr ([two_entities, spectral_result], 1)
   \<and> bind (loc_entity ''B'' (setitem_scalar ''out'' (Fin 0) two_entities))
        (\<lambda>sel. Inr (index (snd (entity_slices sel)))) = Inr [seconds 0, seconds 1]
   \<and> Spectral_entity example_library spectral_w1 (setitem_scalar ''out'' (Fin 0) two_entities) ''B''
     = Inr (Some [Fin (-2), Fin 0])
   \<and> map (\<lambda>(k, r). (k, cell r ''out'')) (rows spectral_result)
     = [((''A'', seconds 0), Fin 0), ((''B'', seconds 1), Fin (-2)), ((''B'', seconds 0), Fin 0)]"
proof -
  have 1: "bind (loc_entity ''B'' (setitem_scalar ''out'' (Fin 0) two_entities))
        (\<lambda>sel. Inr (index (snd (entity_slices sel)))) = Inr [seconds 0, seconds 1]"
    by code_simp
  have 2: "map (\<lambda>(k, r). (k, cell r ''out'')) (rows spectral_result)
     = [((''A'', seconds 0), Fin 0), ((''B'', seconds 1), Fin (-2)), ((''B'', seconds 0), Fin 0)]"
    by code_simp
  show ?thesis
    using spectral_w1_run 1 spectral_w1_B[unfolded two_entities0_def] 2 by (intro conjI)
qed

subsection \<open>Realignment Merger\<close>

text \<open>
  A scored entity gets the result of the realignment, and its original slice has the
  output column that \<open>execute\<close> has set on the copy.
\<close>

lemma scored_entity_realigned:
  assumes "score_entity signal stretched self t e = Inr (Some z)"
  shows "\<exists>sel dfe dfe_orig md temp scoreI dfe'.
           loc_entity e t = Inr sel \<and> signal sel = Inr (dfe, dfe_orig, md, temp)
         \<and> windowsize self < int (length temp) \<and> stretched temp = Inr scoreI
         \<and> setitem_array (output_item self) scoreI dfe = Inr dfe'
         \<and> realign self dfe_orig dfe' md = Inr z"
proof -
  from assms obtain sel where sel: "loc_entity e t = Inr sel"
    and r1: "bind (signal sel) (\<lambda>(dfe, dfe_orig, mindelta, temperature).
               if int (length temperature) > windowsize self then
                 bind (stretched temperature) (\<lambda>scoreI.
                 bind (setitem_array (output_item self) scoreI dfe) (\<lambda>dfe.
                 bind (realign self dfe_orig dfe mindelta) (\<lambda>zScoreII. Inr (Some zScoreII))))
               else Inr None) = Inr (Some z)"
    unfolding score_entity_def bind_Inr_iff by blast
  from r1 obtain dfe dfe_orig md temp where sg: "signal sel = Inr (dfe, dfe_orig, md, temp)"
    and r2: "(if int (length temp) > windowsize self then
                 bind (stretched temp) (\<lambda>scoreI.
                 bind (setitem_array (output_item self) scoreI dfe) (\<lambda>dfe.
                 bind (realign self dfe_orig dfe md) (\<lambda>zScoreII. Inr (Some zScoreII))))
               else Inr None) = Inr (Some z)"
    unfolding bind_Inr_iff by auto
  from r2 have long: "windowsize self < int (length temp)" by (auto split: if_splits)
  with r2 obtain scoreI dfe' where "stretched temp = Inr scoreI"
    and "setitem_array (output_item self) scoreI dfe = Inr dfe'"
    and "realign self dfe_orig dfe' md = Inr z"
    by (auto simp: bind_Inr_iff)
  with sel sg long show ?thesis by blast
qed

lemma original_slice_has_output:
  assumes "loc_entity e t = Inr sel" and "out \<in> set (columns t)"
  shows "has_column out (snd (entity_slices sel))"
proof -
  from assms(1) have "columns sel = columns t"
    by (auto simp: loc_entity_def Let_def split: if_splits)
  then show ?thesis using assms(2)
    by (simp add: has_column_def entity_slices_def Let_def sort_index_def reset_index_level0_def)
qed

lemma signal_original_slice:
  "NoData_signal s sel = Inr (dfe, dfe_orig, md, temp) \<Longrightarrow> dfe_orig = snd (entity_slices sel)"
  "interpolated_signal s' sel = Inr (dfe, dfe_orig, md, temp) \<Longrightarrow> dfe_orig = snd (entity_slices sel)"
  by (auto simp: NoData_signal_def interpolated_signal_def bind_Inr_iff Let_def case_prod_unfold)









subsection \<open>Score Stretcher\<close>

lemma stretch_length: "stretch lib timesTS score n = Inr ys \<Longrightarrow> length ys = n"
  by (auto simp: stretch_def bind_Inr_iff)

text \<open>
  C4. Whenever the lines from the signal to the stretched score yield a result, under any
  of the three feature extractors, the stretched score is as long as the signal array.
\<close>

theorem stretched_length:
  "(NoData_stretched lib s temperature = Inr scoreI \<longrightarrow> length scoreI = length temperature)
 \<and> (Spectral_stretched lib s temperature = Inr scoreI \<longrightarrow> length scoreI = length temperature)
 \<and> (KMeans_stretched lib k temperature = Inr scoreI \<longrightarrow> length scoreI = length temperature)"
  by (auto simp: NoData_stretched_def Spectral_stretched_def KMeans_stretched_def bind_Inr_iff
      dest: stretch_length)

text \<open>The stretched scores of the example signals, one for each extractor.\<close>

theorem stretched_length_witness:
  "NoData_stretched example_library nodata_w1 [Fin 0, Fin 1, Fin 1, Fin 0] = Inr [Fin (-2), Fin 0, Fin 1, Fin 0]
   \<and> length [Fin (-2), Fin 0, Fin 1, Fin 0] = length [Fin 0, Fin 1, Fin 1, Fin (0::real)]
   \<and> Spectral_stretched example_library spectral_w1 [Fin 1, Fin 10] = Inr [Fin (-2), Fin 0]
   \<and> length [Fin (-2), Fin 0] = length [Fin 1, Fin (10::real)]
   \<and> KMeans_stretched example_library kmeans_w1 [Fin 1, Fin 10] = Inr [Fin 1, Fin 4]
   \<and> length [Fin 1, Fin 4] = length [Fin 1, Fin (10::real)]"
  using stretched_length[of example_library nodata_w1 "[Fin 0, Fin 1, Fin 1, Fin 0]" "[Fin (-2), Fin 0, Fin 1, Fin 0]"]
    stretched_length[of example_library spectral_w1 "[Fin 1, Fin 10]" "[Fin (-2), Fin 0]"]
    stretched_length[of example_library _ "[Fin 1, Fin 10]" "[Fin 1, Fin 4]" kmeans_w1]
    gap_stretched spectral_w1_stretched kmeans_w1_stretched
  by simp

subsection \<open>Spectral-Energy Extractor\<close>

lemma mask_freqs_eq:
  assumes "\<forall>f\<in>set freqs. \<exists>a. f = Fin a"
  shows "mask_freqs ws freqs = masked_axis ws freqs"
proof -
  have thr: "fdiv (Fin 2) (fl_of_int ws) = PInf \<or> (\<exists>b. fdiv (Fin 2) (fl_of_int ws) = Fin b)"
    by (simp add: fl_of_int_def inf_of_sign_def)
  have one: "(let g = (if fle f (fdiv (Fin 2) (fl_of_int ws)) then Fin 0 else f)
              in if g = Fin 0 then fdiv (Fin 1) (fl_of_int ws) else g)
           = (if feq (fmul f (if fgt f (fdiv (Fin 2) (fl_of_int ws)) then Fin 1 else Fin 0)) (Fin 0)
              then fdiv (Fin 1) (fl_of_int ws) else fmul f (if fgt f (fdiv (Fin 2) (fl_of_int ws)) then Fin 1 else Fin 0))"
    if "f \<in> set freqs" for f
  proof -
    from assms that obtain a where a: "f = Fin a" by blast
    from thr show ?thesis
      by (auto simp: a fle_def fgt_def feq_def Let_def)
  qed
  have "mask_freqs ws freqs =
      map (\<lambda>f. if feq (fmul f (if fgt f (fdiv (Fin 2) (fl_of_int ws)) then Fin 1 else Fin 0)) (Fin 0)
              then fdiv (Fin 1) (fl_of_int ws) else fmul f (if fgt f (fdiv (Fin 2) (fl_of_int ws)) then Fin 1 else Fin 0)) freqs"
    by (simp add: mask_freqs_def Let_def zip_map2 zip_same_conv_map comp_def)
  also have "\<dots> = masked_axis ws freqs"
    unfolding masked_axis_def using one by (intro map_cong refl) (simp add: one)
  finally show ?thesis .
qed

lemma np_dot_T_eq:
  assumes "length Sx = length axis" and "axis \<noteq> []" and "\<forall>row\<in>set Sx. length row = nseg"
  shows "np_dot_T Sx axis = Inr (map (segment_energy Sx axis) [0 ..< nseg])"
proof -
  have ne: "Sx = [] \<Longrightarrow> nseg = 0" using assms(1,2) by simp
  have rect: "\<And>i. i < length Sx \<Longrightarrow> length (Sx ! i) = nseg" using assms(3) by simp
  have tr: "transpose Sx = map (\<lambda>j. map (\<lambda>i. Sx ! i ! j) [0 ..< length Sx]) [0 ..< nseg]"
    by (rule transpose_rectangle[OF ne rect])
  have z: "map (\<lambda>(a, b). fmul a b) (zip (map (\<lambda>i. Sx ! i ! j) [0 ..< length axis]) axis)
         = map (\<lambda>i. fmul (Sx ! i ! j) (axis ! i)) [0 ..< length axis]" for j
    by (intro nth_equalityI) simp_all
  show ?thesis
    using assms(1) by (simp add: np_dot_T_def tr comp_def z segment_energy_def)
qed

lemma zscore_eq: "zscore xs = z_score xs"
  by (simp add: zscore_def z_score_def np_std0_def population_std_def Let_def comp_def)

text \<open>
  C5. Let the spectrogram of the signal give a frequency axis of finite values, the
  segment times, and a grid of magnitudes with one row per frequency and one column per
  segment. Then the feature array of the raw-signal variant is the z-score, with the
  population standard deviation, of the logarithms to base 10 of the segment energies,
  and the feature array of the gap-presence variant is the z-score of the energies
  themselves; the energy of a segment is the dot product of its magnitudes with the
  masked frequency axis.
\<close>

theorem spectral_features_follow_spec:
  assumes "spectrogram lib temperature (windowsize s) (windowoverlap s) = Inr (freqsTS, timesTS, SxTS)"
    and "length SxTS = length freqsTS" and "freqsTS \<noteq> []"
    and "\<forall>row\<in>set SxTS. length row = length timesTS"
    and "\<forall>f\<in>set freqsTS. \<exists>a. f = Fin a"
  shows "Spectral_features lib s temperature
           = Inr (timesTS, spectral_feature_spec True (windowsize s) freqsTS SxTS (length timesTS))
       \<and> NoData_features lib s temperature
           = Inr (timesTS, spectral_feature_spec False (windowsize s) freqsTS SxTS (length timesTS))"
proof -
  let ?axis = "masked_axis (windowsize s) freqsTS"
  have m: "mask_freqs (windowsize s) freqsTS = ?axis" by (rule mask_freqs_eq[OF assms(5)])
  have la: "length SxTS = length ?axis" using assms(2) by (simp add: masked_axis_def)
  have na: "?axis \<noteq> []" using assms(3) by (simp add: masked_axis_def)
  have dot: "np_dot_T SxTS ?axis = Inr (map (segment_energy SxTS ?axis) [0 ..< length timesTS])"
    by (rule np_dot_T_eq[OF la na assms(4)])
  show ?thesis
    by (simp add: Spectral_features_def NoData_features_def assms(1) bind_def m dot zscore_eq
        spectral_feature_spec_def Let_def comp_def)
qed

text \<open>
  The hypotheses of C5 hold for the example spectrogram of the signal \<open>[1, 10]\<close>, whose
  raw-signal features are \<open>[-1, 1]\<close>.
\<close>

theorem spectral_features_follow_spec_witness:
  "spectrogram example_library [Fin 1, Fin 10] (windowsize spectral_w1) (windowoverlap spectral_w1)
     = Inr ([Fin 0], [Fin (1/2), Fin (3/2)], [[Fin 1, Fin 100]])
   \<and> Spectral_features example_library spectral_w1 [Fin 1, Fin 10]
       = Inr ([Fin (1/2), Fin (3/2)],
              spectral_feature_spec True (windowsize spectral_w1) [Fin 0] [[Fin 1, Fin 100]]
                (length [Fin (1/2), Fin (3/2)]))
   \<and> NoData_features example_library spectral_w1 [Fin 1, Fin 10]
       = Inr ([Fin (1/2), Fin (3/2)],
              spectral_feature_spec False (windowsize spectral_w1) [Fin 0] [[Fin 1, Fin 100]]
                (length [Fin (1/2), Fin (3/2)]))
   \<and> spectral_feature_spec True (windowsize spectral_w1) [Fin 0] [[Fin 1, Fin 100]]
         (length [Fin (1/2), Fin (3/2)])
       = [Fin (-1), Fin 1]"
proof -
  have a: "length [[Fin 1, Fin (100::real)]] = length [Fin (0::real)]" by simp
  have b: "[Fin (0::real)] \<noteq> []" by simp
  have c: "\<forall>row\<in>set [[Fin 1, Fin 100]]. length row = length [Fin (1/2), Fin (3/2::real)]" by simp
  have d: "\<forall>f\<in>set [Fin (0::real)]. \<exists>a. f = Fin a" by simp
  note t = spectral_features_follow_spec[OF spectrogram_example a b c d]
  have v: "spectral_feature_spec True (windowsize spectral_w1) [Fin 0] [[Fin 1, Fin 100]]
         (length [Fin (1/2), Fin (3/2)]) = [Fin (-1), Fin 1]"
    using conjunct1[OF t] spectral_w1_features by (metis Inr_inject snd_conv)
  show ?thesis
    by (intro conjI spectrogram_example conjunct1[OF t] conjunct2[OF t] v)
qed

subsection \<open>Outlier-Clustering Extractor\<close>









subsection \<open>Gap Imputer\<close>

lemma gap_indicator:
  "(let x = custom_resampler (map (\<lambda>(t, r). cell r c) b);
        y = (if isna x then x else Fin 0)
    in if isna y then Fin 1 else y)
   = (case b of [] \<Rightarrow> Fin 1 | (t, r) # _ \<Rightarrow> if isna (cell r c) then Fin 1 else Fin 0)"
  by (cases b) (auto simp: custom_resampler_def Let_def)

lemma resample_labels_nth:
  "k < length (resample_labels freq ts) \<Longrightarrow>
   resample_labels freq ts ! k = resample_labels freq ts ! 0 + int k * freq"
  by (cases ts) (auto simp: resample_labels_def Let_def simp del: upt_Suc)

text \<open>
  C8, amended. In gap-presence mode the signal array has one entry for each bucket of the
  regular grid of period \<open>meandelta\<close> over the sorted slice of the entity. The entry is 1
  for a bucket that holds no record and for a bucket whose first record has no value
  (\<open>NaN\<close>) in the input column, and 0 for a bucket whose first record has a value there.
\<close>

theorem gap_signal_is_missing_indicator:
  assumes "NoData_signal self sel = Inr (dfe, dfe_orig, mindelta, temperature)"
  shows "dfe_orig = sort_index (reset_index_level0 sel)
     \<and> index dfe = resample_labels (meandelta_of dfe_orig) (index dfe_orig)
     \<and> (\<forall>k<length (index dfe). index dfe ! k = index dfe ! 0 + int k * meandelta_of dfe_orig)
     \<and> temperature =
         map (\<lambda>g. case bucket (meandelta_of dfe_orig) g dfe_orig of
                     [] \<Rightarrow> Fin 1
                   | (t, r) # _ \<Rightarrow> if isna (cell r (input_item self)) then Fin 1 else Fin 0)
             (index dfe)"
proof -
  let ?orig = "sort_index (reset_index_level0 sel)"
  let ?f = "meandelta_of ?orig"
  let ?c = "input_item self"
  from assms obtain up where up: "resample_apply ?f ?orig = Inr up"
    and g: "getitem (fillna (Fin 1) (where_isna (Fin 0) up)) ?c = Inr temperature"
    and d: "dfe = fillna (Fin 1) (where_isna (Fin 0) up)" and o: "dfe_orig = ?orig"
    by (auto simp: NoData_signal_def entity_slices_def Let_def bind_Inr_iff)
  from up have upd: "up = \<lparr>columns = columns ?orig,
        rows = map (\<lambda>g. (g, map (\<lambda>c. (c, custom_resampler (map (\<lambda>(t, r). cell r c) (bucket ?f g ?orig))))
                              (columns ?orig)))
                   (resample_labels ?f (index ?orig))\<rparr>"
    by (auto simp: resample_apply_def split: if_splits)
  have rows_dfe: "rows dfe = map (\<lambda>g. (g, map (\<lambda>c. (c,
          (let x = custom_resampler (map (\<lambda>(t, r). cell r c) (bucket ?f g ?orig));
               y = (if isna x then x else Fin 0)
           in if isna y then Fin 1 else y))) (columns ?orig)))
        (resample_labels ?f (index ?orig))"
    by (simp add: d fillna_def where_isna_def upd comp_def Let_def)
  have idx: "index dfe = resample_labels ?f (index ?orig)"
    by (simp add: index_def rows_dfe comp_def)
  from g have hc: "?c \<in> set (columns ?orig)"
    by (auto simp: getitem_def has_column_def d fillna_def where_isna_def upd split: if_splits)
  from g have "temperature = map (\<lambda>(k, r). cell r ?c) (rows dfe)"
    by (auto simp: getitem_def d split: if_splits)
  also have "\<dots> = map (\<lambda>g. case bucket ?f g ?orig of
                     [] \<Rightarrow> Fin 1
                   | (t, r) # _ \<Rightarrow> if isna (cell r ?c) then Fin 1 else Fin 0)
             (resample_labels ?f (index ?orig))"
    unfolding rows_dfe by (simp add: comp_def cell_map_columns[OF hc] gap_indicator)
  finally have temp: "temperature = map (\<lambda>g. case bucket ?f g ?orig of
                     [] \<Rightarrow> Fin 1
                   | (t, r) # _ \<Rightarrow> if isna (cell r ?c) then Fin 1 else Fin 0)
             (resample_labels ?f (index ?orig))" .
  have reg: "\<forall>k<length (index dfe). index dfe ! k = index dfe ! 0 + int k * ?f"
    unfolding idx using resample_labels_nth by blast
  show ?thesis using o idx reg temp by simp
qed

text \<open>
  The hypothesis of the amended C8 holds for the slice of the records at 0 s, 1 s, 2 s
  and 12 s, whose grid has the period 4 s and whose signal is \<open>[0, 1, 1, 0]\<close>.
\<close>

theorem gap_signal_is_missing_indicator_witness:
  "NoData_signal nodata_w1 \<lparr>columns = [''x'', ''out''],
        rows = [((''E'', 0), [(''x'', Fin 10), (''out'', Fin 0)]),
                ((''E'', 1000000000), [(''x'', Fin 20), (''out'', Fin 0)]),
                ((''E'', 2000000000), [(''x'', Fin 30), (''out'', Fin 0)]),
                ((''E'', 12000000000), [(''x'', Fin 40), (''out'', Fin 0)])]\<rparr>
   = Inr (grid_E, slice_E, seconds 1, [Fin 0, Fin 1, Fin 1, Fin 0])
   \<and> index grid_E = resample_labels (meandelta_of slice_E) (index slice_E)
   \<and> index grid_E = [0, seconds 4, seconds 8, seconds 12]
   \<and> [Fin 0, Fin 1, Fin 1, Fin 0] =
         map (\<lambda>g. case bucket (meandelta_of slice_E) g slice_E of
                     [] \<Rightarrow> Fin 1
                   | (t, r) # _ \<Rightarrow> if isna (cell r (input_item nodata_w1)) then Fin 1 else Fin 0)
             (index grid_E)"
proof -
  have g: "index grid_E = [0, seconds 4, seconds 8, seconds 12]" by code_simp
  note t = gap_signal_is_missing_indicator[OF signal_E]
  show ?thesis
    by (intro conjI signal_E g t[THEN conjunct2, THEN conjunct1]
        t[THEN conjunct2, THEN conjunct2, THEN conjunct2])
qed

text \<open>
  C8 as stated fails on the table whose record at 1 s has no value in the input column:
  the grid has the period 1 s, the bucket at 1 s holds that record, and the signal is 1
  there.
\<close>

theorem gap_signal_counterexample:
  "bind (loc_entity ''E'' (setitem_scalar ''out'' (Fin 0) nan_table))
     (\<lambda>sel. bind (NoData_signal nodata_w1 sel)
        (\<lambda>(dfe, dfe_orig, mindelta, temperature).
           Inr (temperature, index dfe, meandelta_of dfe_orig,
                map fst (bucket (meandelta_of dfe_orig) (index dfe ! 1) dfe_orig))))
   = Inr ([Fin 0, Fin 1, Fin 0], [0, seconds 1, seconds 2], seconds 1, [seconds 1])"
  by code_simp

subsection \<open>The caller's table\<close>

text \<open>
  C9. Whenever an \<open>execute\<close> of one of the three transformers returns, on a store that
  holds the caller's table, it returns a table at a new address and leaves every table of
  the store as it was; the returned table has the row keys of the caller's table, in the
  same order, its columns and the output column, and the cells of the caller's table in
  every column but the output column. The output column is set to 0 in every row of the
  copy before the loop, and the loop overwrites it entity by entity: a row of an entity
  for which the loop body yields no score has 0 there.
\<close>

theorem execute_returns_modified_copy:
  assumes "df < length h"
  shows "(NoDataAnomalyScore_execute lib sN h df = Inr (hN, rN)
            \<longrightarrow> modified_copy (output_item sN) h df hN rN
              \<and> (\<forall>row\<in>set (rows (hN ! rN)).
                    NoData_entity lib sN (setitem_scalar (output_item sN) (Fin 0) (h ! df)) (fst (fst row))
                      = Inr None
                    \<longrightarrow> cell (snd row) (output_item sN) = Fin 0))
       \<and> (SpectralAnomalyScore_execute lib sS h df = Inr (hS, rS)
            \<longrightarrow> modified_copy (output_item sS) h df hS rS
              \<and> (\<forall>row\<in>set (rows (hS ! rS)).
                    Spectral_entity lib sS (setitem_scalar (output_item sS) (Fin 0) (h ! df)) (fst (fst row))
                      = Inr None
                    \<longrightarrow> cell (snd row) (output_item sS) = Fin 0))
       \<and> (KMeansAnomalyScore_execute lib k h df = Inr (hK, rK)
            \<longrightarrow> modified_copy (output_item k) h df hK rK
              \<and> (\<forall>row\<in>set (rows (hK ! rK)).
                    KMeans_entity lib k (setitem_scalar (output_item k) (Fin 0) (h ! df)) (fst (fst row))
                      = Inr None
                    \<longrightarrow> cell (snd row) (output_item k) = Fin 0))"
proof (intro conjI impI ballI)
  assume a: "NoDataAnomalyScore_execute lib sN h df = Inr (hN, rN)"
  note run = NoDataAnomalyScore_execute_Inr[OF a assms]
  show "modified_copy (output_item sN) h df hN rN"
    using run driver_modified_copy by simp
  fix row assume "row \<in> set (rows (hN ! rN))"
    and "NoData_entity lib sN (setitem_scalar (output_item sN) (Fin 0) (h ! df)) (fst (fst row)) = Inr None"
  then show "cell (snd row) (output_item sN) = Fin 0"
    using driver_unscored_rows[OF run(2)[unfolded NoData_entity_def] score_entity_reads_entity_only]
      run(1) by (simp add: NoData_entity_def)
next
  assume a: "SpectralAnomalyScore_execute lib sS h df = Inr (hS, rS)"
  note run = SpectralAnomalyScore_execute_Inr[OF a assms]
  show "modified_copy (output_item sS) h df hS rS"
    using run driver_modified_copy by simp
  fix row assume "row \<in> set (rows (hS ! rS))"
    and "Spectral_entity lib sS (setitem_scalar (output_item sS) (Fin 0) (h ! df)) (fst (fst row)) = Inr None"
  then show "cell (snd row) (output_item sS) = Fin 0"
    using driver_unscored_rows[OF run(2)[unfolded Spectral_entity_def] score_entity_reads_entity_only]
      run(1) by (simp add: Spectral_entity_def)
next
  assume a: "KMeansAnomalyScore_execute lib k h df = Inr (hK, rK)"
  note run = KMeansAnomalyScore_execute_Inr[OF a assms]
  show "modified_copy (output_item k) h df hK rK"
    using run driver_modified_copy by simp
  fix row assume "row \<in> set (rows (hK ! rK))"
    and "KMeans_entity lib k (setitem_scalar (output_item k) (Fin 0) (h ! df)) (fst (fst row)) = Inr None"
  then show "cell (snd row) (output_item k) = Fin 0"
    using driver_unscored_rows[OF run(2)[unfolded KMeans_entity_def] score_entity_reads_entity_only]
      run(1) by (simp add: KMeans_entity_def)
qed

text \<open>The three runs on the example table return such copies.\<close>

theorem execute_returns_modified_copy_witness:
  "0 < length [two_entities]
   \<and> NoDataAnomalyScore_execute example_library nodata_w1 [two_entities] 0 = Inr ([two_entities, nodata_result], 1)
   \<and> modified_copy (output_item nodata_w1) [two_entities] 0 [two_entities, nodata_result] 1
   \<and> SpectralAnomalyScore_execute example_library spectral_w1 [two_entities] 0 = Inr ([two_entities, spectral_result], 1)
   \<and> modified_copy (output_item spectral_w1) [two_entities] 0 [two_entities, spectral_result] 1
   \<and> KMeansAnomalyScore_execute example_library kmeans_w1 [two_entities] 0 = Inr ([two_entities, kmeans_result], 1)
   \<and> modified_copy (output_item kmeans_w1) [two_entities] 0 [two_entities, kmeans_result] 1"
proof -
  have d: "0 < length [two_entities]" by simp
  note t = execute_returns_modified_copy[OF d, where lib = example_library
      and sN = nodata_w1 and hN = "[two_entities, nodata_result]" and rN = 1
      and sS = spectral_w1 and hS = "[two_entities, spectral_result]" and rS = 1
      and k = kmeans_w1 and hK = "[two_entities, kmeans_result]" and rK = 1]
  have n: "modified_copy (output_item nodata_w1) [two_entities] 0 [two_entities, nodata_result] 1"
    by (rule conjunct1[OF mp[OF conjunct1[OF t] nodata_w1_run]])
  have s: "modified_copy (output_item spectral_w1) [two_entities] 0 [two_entities, spectral_result] 1"
    by (rule conjunct1[OF mp[OF conjunct1[OF conjunct2[OF t]] spectral_w1_run]])
  have k: "modified_copy (output_item kmeans_w1) [two_entities] 0 [two_entities, kmeans_result] 1"
    by (rule conjunct1[OF mp[OF conjunct2[OF conjunct2[OF t]] kmeans_w1_run]])
  show ?thesis by (intro conjI d nodata_w1_run spectral_w1_run kmeans_w1_run n s k)
qed

subsection \<open>The scaffold class cannot score\<close>

text \<open>
  C10. For every argument triple, constructing an \<open>ASAnomalyHandler\<close> raises: \<open>__init__\<close>
  reads \<open>self.df\<close> before anything assigns it, which is an \<open>AttributeError\<close>. The method
  \<open>score\<close> raises a \<open>NameError\<close> for \<open>entities\<close> on every instance and table, before it
  looks at the table, and the name \<open>scorer\<close> of line 94 is bound neither locally, whatever
  the local variables hold, nor in the module, nor in the builtins. So the class completes
  no scoring pass.
\<close>

theorem ASAnomalyHandler_never_scores:
  "ASAnomalyHandler_init unique_levels0 set_and_sort inp out scorer
     = Inl (AttributeError ''df'')
   \<and> ASAnomalyHandler_score lib locals self df = Inl (NameError ''entities'')
   \<and> lookup_name (map (\<lambda>n. (n, locals n)) score_local_names) ''scorer''
     = Inl (NameError ''scorer'')"
  by (simp add: ASAnomalyHandler_init_def ASAnomalyHandler_score_def getattr_self_def
      lookup_name_def bind_def score_local_names_def module_globals_def py_builtins_def
      ASAnomalyHandler_attrs_def object_attrs_def)

end
